theory Spec2Isabelle
  imports Main
begin

section \<open>Protocol messages\<close>

text \<open>
  A message on the wire is a JSON object. The fields are the ones of the client's
  \<open>WSMessage\<close> interface together with the fields the two servers and the game screen
  read or write beside it (\<open>winnerPubkey\<close>, \<open>requesterPubkey\<close>, \<open>from\<close>, \<open>text\<close>, \<open>ts\<close>).
  A field that is absent (\<open>undefined\<close>) is \<open>None\<close>. Numbers are integers, byte arrays are
  lists of naturals; a position of the \<open>dice\<close> array that holds no number (\<open>null\<close>) is \<open>None\<close>.
  Both programs treat a field that is \<open>null\<close> like an absent one, with one exception: the
  game screen tests \<open>newTurn\<close> against \<open>undefined\<close> only and stores whatever else it
  finds. So \<open>newTurn\<close> is a JSON value: \<open>null\<close>, an integer, or any other value (kept as
  its JSON text).
\<close>

datatype jvalue = JNull | JNum int | JOther string

record ws_message =
  m_type :: "string option"
  m_gamePubkey :: "string option"
  m_playerPubkey :: "string option"
  m_moveIndex :: "int option"
  m_player :: "string option"
  m_boardPoints :: "int list option"
  m_dice :: "int option list option"
  m_transactionData :: "nat list option"
  m_newTurn :: "jvalue option"
  m_winnerPubkey :: "string option"
  m_requesterPubkey :: "string option"
  m_message :: "string option"
  m_error :: "string option"
  m_from :: "string option"
  m_text :: "string option"
  m_ts :: "nat option"

definition no_fields :: ws_message where
  "no_fields = \<lparr> m_type = None, m_gamePubkey = None, m_playerPubkey = None,
     m_moveIndex = None, m_player = None, m_boardPoints = None, m_dice = None,
     m_transactionData = None, m_newTurn = None, m_winnerPubkey = None,
     m_requesterPubkey = None, m_message = None, m_error = None, m_from = None,
     m_text = None, m_ts = None \<rparr>"

text \<open>JavaScript truthiness of an optional string: absent and the empty string are falsy.\<close>

definition truthy :: "string option \<Rightarrow> bool" where
  "truthy v = (case v of None \<Rightarrow> False | Some s \<Rightarrow> s \<noteq> [])"

section \<open>The relay with co-signing support (WebSocket part of the game server)\<close>

type_synonym conn = nat

record subscription =
  sub_gamePubkey :: string
  sub_playerPubkey :: string

record game =
  player1 :: string
  player2 :: string

text \<open>
  \<open>clients\<close> is \<open>wss.clients\<close> in iteration order, \<open>readyState\<close> tells whether a socket is
  \<open>OPEN\<close>, \<open>clientSubscriptions\<close> is the map of the same name and \<open>games\<close> is the
  \<open>games\<close> table keyed by \<open>game_pubkey\<close>.
\<close>

record relay =
  clients :: "conn list"
  readyState :: "conn \<Rightarrow> bool"
  clientSubscriptions :: "conn \<rightharpoonup> subscription"
  games :: "string \<rightharpoonup> game"

text \<open>
  \<open>gameStmt.get(message.gamePubkey)\<close>: the row of the game or \<open>undefined\<close>. An absent
  key is bound as \<open>NULL\<close>, which equals no \<open>game_pubkey\<close>, so no row is found.
\<close>

definition gameStmt_get :: "relay \<Rightarrow> string option \<Rightarrow> game option" where
  "gameStmt_get r k = (case k of None \<Rightarrow> None | Some g \<Rightarrow> games r g)"

definition error_reply :: "string \<Rightarrow> ws_message" where
  "error_reply txt = no_fields \<lparr> m_type := Some ''error'', m_error := Some txt \<rparr>"

text \<open>
  The loop \<open>wss.clients.forEach\<close> shared by every forwarding branch: the payload goes to
  each client that is open, has a subscription, and whose subscription names the game of
  the message.
\<close>

definition subscribed_to :: "relay \<Rightarrow> string option \<Rightarrow> conn \<Rightarrow> bool" where
  "subscribed_to r g c =
     (readyState r c \<and>
      (case clientSubscriptions r c of None \<Rightarrow> False
       | Some s \<Rightarrow> Some (sub_gamePubkey s) = g))"

definition fan_out :: "relay \<Rightarrow> string option \<Rightarrow> ws_message \<Rightarrow> (conn \<times> ws_message) list" where
  "fan_out r g payload = map (\<lambda>c. (c, payload)) (filter (subscribed_to r g) (clients r))"

text \<open>
  Branches that look the game up first (\<open>move_request\<close>, \<open>move_signed\<close>,
  \<open>finish_signed\<close>): without a row the sender gets \<open>Game not found\<close> and the handler
  returns; \<open>targetPlayer\<close> is computed for the log only.
\<close>

definition forward_checked :: "relay \<Rightarrow> conn \<Rightarrow> ws_message \<Rightarrow> (conn \<times> ws_message) list" where
  "forward_checked r ws message =
     (case gameStmt_get r (m_gamePubkey message) of
        None \<Rightarrow> [(ws, error_reply ''Game not found'')]
      | Some _ \<Rightarrow> fan_out r (m_gamePubkey message) message)"

definition turn_changed_of :: "ws_message \<Rightarrow> ws_message" where
  "turn_changed_of message =
     no_fields \<lparr> m_type := Some ''turn_changed'', m_gamePubkey := m_gamePubkey message,
       m_newTurn := m_newTurn message \<rparr>"

text \<open>
  The \<open>message\<close> event of one connection \<open>ws\<close>. \<open>parse\<close> stands for
  \<open>JSON.parse(data.toString())\<close>: \<open>None\<close> when it throws (and for the value \<open>null\<close>,
  whose property access throws into the same \<open>catch\<close>). The result is the new relay state
  and the frames sent, each with the connection it is sent on.
\<close>

definition on_message ::
  "('raw \<Rightarrow> ws_message option) \<Rightarrow> relay \<Rightarrow> conn \<Rightarrow> 'raw \<Rightarrow> relay \<times> (conn \<times> ws_message) list" where
  "on_message parse r ws data =
     (case parse data of
        None \<Rightarrow> (r, [(ws, error_reply ''Failed to process message'')])
      | Some message \<Rightarrow>
         if m_type message = Some ''subscribe'' then
           (case (m_gamePubkey message, m_playerPubkey message) of
              (Some g, Some p) \<Rightarrow>
                if g = [] \<or> p = [] then
                  (r, [(ws, error_reply ''Missing gamePubkey or playerPubkey'')])
                else
                  (r \<lparr> clientSubscriptions := (clientSubscriptions r)
                         (ws \<mapsto> \<lparr> sub_gamePubkey = g, sub_playerPubkey = p \<rparr>) \<rparr>,
                   [(ws, no_fields \<lparr> m_type := Some ''subscribed'', m_gamePubkey := Some g,
                           m_playerPubkey := Some p \<rparr>)])
            | _ \<Rightarrow> (r, [(ws, error_reply ''Missing gamePubkey or playerPubkey'')]))
         else if m_type message = Some ''chat'' then
           (r, fan_out r (m_gamePubkey message) message)
         else if m_type message = Some ''move_request'' then
           (r, forward_checked r ws message)
         else if m_type message = Some ''move_signed'' then
           (r, forward_checked r ws message)
         else if m_type message = Some ''turn_completed'' then
           (r, fan_out r (m_gamePubkey message) (turn_changed_of message))
         else if m_type message = Some ''finish_request'' then
           (r, fan_out r (m_gamePubkey message) message)
         else if m_type message = Some ''finish_signed'' then
           (r, forward_checked r ws message)
         else if m_type message = Some ''game_finished'' then
           (r, fan_out r (m_gamePubkey message) message)
         else if m_type message = Some ''manual_finished'' then
           (r, fan_out r (m_gamePubkey message) message)
         else (r, []))"

text \<open>The \<open>connection\<close> and \<open>close\<close> events.\<close>

definition on_connection :: "relay \<Rightarrow> conn \<Rightarrow> relay" where
  "on_connection r ws =
     r \<lparr> clients := (if ws \<in> set (clients r) then clients r else clients r @ [ws]),
         readyState := (readyState r)(ws := True) \<rparr>"

definition on_close :: "relay \<Rightarrow> conn \<Rightarrow> relay" where
  "on_close r ws =
     r \<lparr> clients := filter (\<lambda>c. c \<noteq> ws) (clients r),
         readyState := (readyState r)(ws := False),
         clientSubscriptions := (clientSubscriptions r)(ws := None) \<rparr>"

section \<open>The chat-only relay (\<open>server/src/index.ts\<close>)\<close>

text \<open>
  Here each connection owns a \<open>WsClient\<close> object whose \<open>gamePubkey\<close> and
  \<open>playerPubkey\<close> are set by \<open>subscribe\<close> without any check.
\<close>

record ws_client =
  wc_gamePubkey :: "string option"
  wc_playerPubkey :: "string option"

record chat_relay =
  cr_clients :: "conn list"
  cr_open :: "conn \<Rightarrow> bool"
  cr_client :: "conn \<Rightarrow> ws_client"

definition broadcastToGame :: "chat_relay \<Rightarrow> string option \<Rightarrow> ws_message \<Rightarrow> (conn \<times> ws_message) list" where
  "broadcastToGame r g payload =
     map (\<lambda>c. (c, payload))
       (filter (\<lambda>c. wc_gamePubkey (cr_client r c) = g \<and> cr_open r c) (cr_clients r))"

text \<open>\<open>now\<close> is \<open>Date.now()\<close>. A parse error is logged to the console and nothing is sent.\<close>

definition chat_on_message ::
  "('raw \<Rightarrow> ws_message option) \<Rightarrow> nat \<Rightarrow> chat_relay \<Rightarrow> conn \<Rightarrow> 'raw
     \<Rightarrow> chat_relay \<times> (conn \<times> ws_message) list" where
  "chat_on_message parse now r ws data =
     (case parse data of
        None \<Rightarrow> (r, [])
      | Some msg \<Rightarrow>
         if m_type msg = Some ''subscribe'' then
           (r \<lparr> cr_client := (cr_client r)
                  (ws := \<lparr> wc_gamePubkey = m_gamePubkey msg,
                           wc_playerPubkey = m_playerPubkey msg \<rparr>) \<rparr>, [])
         else if m_type msg = Some ''chat'' \<and> truthy (wc_gamePubkey (cr_client r ws)) then
           (r, broadcastToGame r (wc_gamePubkey (cr_client r ws))
                 (no_fields \<lparr> m_type := Some ''chat'',
                    m_from := wc_playerPubkey (cr_client r ws),
                    m_text := m_text msg, m_ts := Some now \<rparr>))
         else (r, []))"

section \<open>The client's WebSocket singleton (\<open>wsClient\<close>)\<close>

text \<open>The members of class \<open>WebSocketClient\<close>, in the order of their declaration.\<close>

definition WebSocketClient_methods :: "string list" where
  "WebSocketClient_methods =
     [''connect'', ''attemptReconnect'', ''subscribe'', ''sendChat'', ''onMessage'',
      ''offMessage'', ''sendMoveRequest'', ''sendMoveSigned'', ''sendTurnCompleted'',
      ''disconnect'', ''isConnected'']"

datatype js_error = TypeError string

text \<open>
  A call \<open>wsClient.name(...)\<close>: the member is looked up on the object first. When the class
  has no such member the call raises \<open>TypeError: wsClient.name is not a function\<close> and the
  body (second argument) never runs. The game screen also calls \<open>sendFinishRequest\<close>,
  \<open>sendFinishSigned\<close> and \<open>sendGameFinished\<close>; at those call sites the body is the sending
  of the frame that the call passes.
\<close>

definition wsClient_invoke :: "string \<Rightarrow> 'a \<Rightarrow> js_error + 'a" where
  "wsClient_invoke name body =
     (if name \<in> set WebSocketClient_methods then Inr body
      else Inl (TypeError (''wsClient.'' @ name @ '' is not a function'')))"

section \<open>Transactions and the environment of the game screen\<close>

text \<open>
  A die is a number or no number (\<open>undefined\<close>, \<open>null\<close>); \<open>js_nth\<close> is the array
  read \<open>xs[i]\<close>, which yields \<open>undefined\<close> past the end.
\<close>

type_synonym die = "int option"

definition js_nth :: "die list \<Rightarrow> nat \<Rightarrow> die" where
  "js_nth xs i = (if i < length xs then xs ! i else None)"

definition die_pair :: "die list \<Rightarrow> die \<times> die" where
  "die_pair xs = (js_nth xs 0, js_nth xs 1)"

definition die_list :: "die \<times> die \<Rightarrow> die list" where
  "die_list d = [fst d, snd d]"

datatype instruction =
    MakeMove "int list" "die \<times> die"
  | FinishGame string

text \<open>
  What the game screen reads and writes of a \<open>Transaction\<close>: the signature slots (public
  key, and the signature or \<open>null\<close>), the fee payer, the recent blockhash, and the
  instruction with the keys it marks as signers. The byte encoding belongs to the
  transaction library.
\<close>

record transaction =
  signatures :: "(string \<times> nat list option) list"
  feePayer :: "string option"
  recentBlockhash :: "string option"
  signer_keys :: "string list"
  instruction :: instruction

datatype ledger_result = Rejected | NotConfirmed | Confirmed

text \<open>
  Everything the screen obtains from outside: the Anchor provider, the key pair, the socket,
  the transaction library (\<open>Transaction.from\<close>, \<open>serialize\<close> with \<open>verifySignatures: false\<close>
  and the given \<open>requireAllSignatures\<close>, \<open>partialSign\<close>; \<open>None\<close> when the call throws), the
  ledger (\<open>sendRawTransaction\<close> followed by \<open>confirmTransaction\<close>), \<open>getGameState\<close>,
  \<open>getLatestBlockhash\<close>, the instruction names of the IDL, and the metadata server
  (\<open>getGame\<close>: the game row and the number of logged moves, \<open>None\<close> when the request
  fails; \<open>logMove\<close>; the dice of \<open>roll-dice\<close>, \<open>None\<close> when that request fails). The
  game key of the props is taken to be a well-formed public key.
\<close>

record env =
  provider_ready :: bool
  current_keypair :: "string option"
  ws_open :: bool
  tx_from :: "nat list \<Rightarrow> transaction option"
  tx_serialize :: "bool \<Rightarrow> transaction \<Rightarrow> nat list option"
  tx_partialSign :: "string \<Rightarrow> transaction \<Rightarrow> transaction option"
  ledger :: "nat list \<Rightarrow> ledger_result"
  chain_game :: "game option"
  latest_blockhash :: "string option"
  idl_instructions :: "string list"
  get_game :: "(game \<times> nat) option"
  log_move_ok :: bool
  roll_dice :: "(die \<times> die) option"

datatype effect =
    WsSend ws_message
  | SendRawTransaction transaction "nat list"
  | Alert string
  | LogMove int string "int list" "die \<times> die"
  | BackAfter nat

text \<open>The sending methods of \<open>wsClient\<close>: nothing leaves while the socket is not open.\<close>

definition ws_send :: "env \<Rightarrow> ws_message \<Rightarrow> effect list" where
  "ws_send e message = (if ws_open e then [WsSend message] else [])"


definition sendMoveSigned :: "env \<Rightarrow> string \<Rightarrow> ws_message \<Rightarrow> effect list" where
  "sendMoveSigned e g message = ws_send e message"

definition sendTurnCompleted :: "env \<Rightarrow> string \<Rightarrow> string \<Rightarrow> int \<Rightarrow> effect list" where
  "sendTurnCompleted e g p newTurn =
     ws_send e (no_fields \<lparr> m_type := Some ''turn_completed'', m_gamePubkey := Some g,
                  m_playerPubkey := Some p, m_newTurn := Some (JNum newTurn) \<rparr>)"

section \<open>The coordination engine (\<open>GameScreen\<close>)\<close>

record pending_move =
  pm_boardPoints :: "int list"
  pm_dice :: "die \<times> die"
  pm_moveIndex :: int
  pm_transactionData :: "nat list option"

record pending_finish =
  pf_winnerPubkey :: string
  pf_transactionData :: "nat list"

text \<open>The props \<open>gamePubkey\<close> and \<open>myPubkey\<close> and the React state of the component.\<close>

record engine =
  gamePubkey :: string
  myPubkey :: string
  boardPoints :: "int list"
  dice :: "(die \<times> die) option"
  currentTurn :: jvalue
  isMyTurn :: bool
  isRolling :: bool
  isProcessingMove :: bool
  isProcessingFinish :: bool
  selectedCell :: "nat option"
  pendingMove :: "pending_move option"
  pendingFinish :: "pending_finish option"
  winnerBanner :: "string option"
  gameInfo :: "game option"

definition submit_alert :: effect where
  "submit_alert = Alert ''Failed to submit move to blockchain. Please try again.''"

text \<open>
  \<open>submitSignedTransactionToBlockchain\<close>. Without a provider it throws before the \<open>try\<close>
  (the caller logs the rejection). Inside the \<open>try\<close> the transaction is serialized, the
  number of signature slots is compared with 2, the bytes are sent and confirmed; only
  then the board, dice, pending move and selection are updated and \<open>turn_completed\<close> is
  sent. Every failure inside the \<open>try\<close> ends in the alert.
\<close>

definition submitSignedTransactionToBlockchain ::
  "env \<Rightarrow> engine \<Rightarrow> transaction \<Rightarrow> int list \<Rightarrow> die \<times> die \<Rightarrow> engine \<times> effect list" where
  "submitSignedTransactionToBlockchain e s signedTx finalBoardPoints finalDice =
     (if \<not> provider_ready e then (s, [])
      else case tx_serialize e True signedTx of
        None \<Rightarrow> (s, [submit_alert])
      | Some serializedTx \<Rightarrow>
          if length (signatures signedTx) < 2 then (s, [submit_alert])
          else (case ledger e serializedTx of
              Confirmed \<Rightarrow>
                (case wsClient_invoke ''sendTurnCompleted''
                        (sendTurnCompleted e (gamePubkey s) (myPubkey s)
                           (if currentTurn s = JNum 1 then 2 else 1)) of
                   Inl _ \<Rightarrow>
                     (s \<lparr> boardPoints := finalBoardPoints, dice := Some finalDice,
                          pendingMove := None, selectedCell := None \<rparr>,
                      [SendRawTransaction signedTx serializedTx, submit_alert])
                 | Inr sent \<Rightarrow>
                     (s \<lparr> boardPoints := finalBoardPoints, dice := Some finalDice,
                          pendingMove := None, selectedCell := None \<rparr>,
                      SendRawTransaction signedTx serializedTx # sent))
            | _ \<Rightarrow> (s, [SendRawTransaction signedTx serializedTx, submit_alert])))"

text \<open>
  \<open>submitFinishTransaction\<close>: serialize, send, confirm, then \<open>wsClient.sendGameFinished\<close>,
  the banner and the timer. Nothing is caught here; the caller logs a rejection.
\<close>

definition submitFinishTransaction ::
  "env \<Rightarrow> engine \<Rightarrow> transaction \<Rightarrow> string \<Rightarrow> engine \<times> effect list" where
  "submitFinishTransaction e s signedTx winner =
     (if \<not> provider_ready e then (s, [])
      else case tx_serialize e True signedTx of
        None \<Rightarrow> (s, [])
      | Some serializedTx \<Rightarrow>
          (case ledger e serializedTx of
              Confirmed \<Rightarrow>
                (case wsClient_invoke ''sendGameFinished''
                        (ws_send e (no_fields \<lparr> m_type := Some ''game_finished'',
                           m_gamePubkey := Some (gamePubkey s),
                           m_winnerPubkey := Some winner \<rparr>)) of
                   Inl _ \<Rightarrow> (s, [SendRawTransaction signedTx serializedTx])
                 | Inr sent \<Rightarrow>
                     (s \<lparr> winnerBanner := Some winner, isMyTurn := False \<rparr>,
                      SendRawTransaction signedTx serializedTx # sent @ [BackAfter 5000]))
            | _ \<Rightarrow> (s, [SendRawTransaction signedTx serializedTx])))"

text \<open>\<open>submitMoveToBlockchain\<close>, the fallback: local state only, the turn is toggled.\<close>

definition submitMoveToBlockchain :: "engine \<Rightarrow> int list \<Rightarrow> die \<times> die \<Rightarrow> engine \<times> effect list" where
  "submitMoveToBlockchain s finalBoardPoints finalDice =
     (s \<lparr> boardPoints := finalBoardPoints, dice := Some finalDice,
          currentTurn := JNum (if currentTurn s = JNum 1 then 2 else 1),
          isMyTurn := (\<not> isMyTurn s),
          pendingMove := None, selectedCell := None \<rparr>, [])"

text \<open>A missing fee payer is taken from the game account, when that can be read.\<close>

definition with_fee_payer :: "env \<Rightarrow> transaction \<Rightarrow> transaction" where
  "with_fee_payer e tx =
     (case feePayer tx of
        Some _ \<Rightarrow> tx
      | None \<Rightarrow> (case chain_game e of None \<Rightarrow> tx
                 | Some g \<Rightarrow> tx \<lparr> feePayer := Some (player1 g) \<rparr>))"

text \<open>
  \<open>loadGameInfo\<close>, run when the screen is mounted: the engine of player 1 starts with
  the turn, and \<open>currentTurn\<close> is set to 1 there and to 2 in every other engine.
\<close>

definition loadGameInfo :: "env \<Rightarrow> engine \<Rightarrow> engine" where
  "loadGameInfo e s =
     (case get_game e of
        None \<Rightarrow> s
      | Some (g, n) \<Rightarrow>
          s \<lparr> gameInfo := Some g,
               currentTurn := JNum (if myPubkey s = player1 g then 1 else 2),
               isMyTurn := (myPubkey s = player1 g) \<rparr>)"

text \<open>\<open>rollDice\<close>: the dice come from the server.\<close>

definition rollDice :: "env \<Rightarrow> engine \<Rightarrow> engine \<times> effect list" where
  "rollDice e s =
     (if isRolling s \<or> \<not> isMyTurn s then (s, [])
      else case roll_dice e of
        None \<Rightarrow>
          (s \<lparr> isRolling := False \<rparr>, [Alert ''Failed to roll dice. Please try again.''])
      | Some d \<Rightarrow>
          (s \<lparr> dice := Some d, selectedCell := None, isRolling := False \<rparr>, []))"

text \<open>
  The message handler registered with \<open>wsClient.onMessage\<close>. It reads \<open>pendingMove\<close>
  through its closure (the effect's dependency list leaves it out), so the value it sees,
  \<open>seenPendingMove\<close>, is the one of the render that registered the handler. A
  \<open>Transaction.from\<close> that throws rejects the handler's promise and nothing else happens.
\<close>

definition messageHandler ::
  "env \<Rightarrow> pending_move option \<Rightarrow> engine \<Rightarrow> ws_message \<Rightarrow> engine \<times> effect list" where
  "messageHandler e seenPendingMove s message =
     (if m_type message = Some ''dice_rolled'' \<and> m_gamePubkey message = Some (gamePubkey s) then
        (case m_dice message of
           None \<Rightarrow> (s, [])
         | Some d \<Rightarrow> if length d = 2 then (s \<lparr> dice := Some (die_pair d) \<rparr>, []) else (s, []))
      else if m_type message = Some ''move'' \<and> m_gamePubkey message = Some (gamePubkey s) then
        (if m_player message = Some (myPubkey s) then (s, [])
         else case m_boardPoints message of
           None \<Rightarrow> (s, [])
         | Some b \<Rightarrow> (s \<lparr> boardPoints := b \<rparr>, []))
      else if m_type message = Some ''move_request'' then
        (case (m_boardPoints message, m_dice message, m_transactionData message) of
           (Some b, Some d, Some t) \<Rightarrow>
             (s \<lparr> pendingMove := Some \<lparr> pm_boardPoints = b, pm_dice = die_pair d,
                     pm_moveIndex = (case m_moveIndex message of None \<Rightarrow> 0 | Some i \<Rightarrow> i),
                     pm_transactionData = Some t \<rparr> \<rparr>, [])
         | _ \<Rightarrow> (s, []))
      else if m_type message = Some ''move_signed'' then
        (if m_playerPubkey message = Some (myPubkey s) then (s, [])
         else case (m_transactionData message, m_boardPoints message, m_dice message) of
           (Some t, Some b, Some d) \<Rightarrow>
             (case tx_from e t of
                None \<Rightarrow> (s, [])
              | Some tx \<Rightarrow>
                  if length (signatures tx) < 2 then
                    (s, [Alert ''Transaction is missing signatures. Please try again.''])
                  else submitSignedTransactionToBlockchain e s (with_fee_payer e tx) b (die_pair d))
         | _ \<Rightarrow>
             (case seenPendingMove of
                None \<Rightarrow> (s, [])
              | Some pm \<Rightarrow> submitMoveToBlockchain s (pm_boardPoints pm) (pm_dice pm)))
      else if m_type message = Some ''turn_changed'' then
        (case m_newTurn message of
           None \<Rightarrow> (s, [])
         | Some newTurn \<Rightarrow>
             (s \<lparr> currentTurn := newTurn,
                  isMyTurn := (case gameInfo s of
                      None \<Rightarrow> isMyTurn s
                    | Some gi \<Rightarrow> (newTurn = JNum 1 \<and> myPubkey s = player1 gi) \<or>
                                 (newTurn = JNum 2 \<and> myPubkey s \<noteq> player1 gi)),
                  dice := None, selectedCell := None, pendingMove := None,
                  isRolling := False, isProcessingMove := False \<rparr>, []))
      else if m_type message = Some ''finish_request''
              \<and> m_gamePubkey message = Some (gamePubkey s) then
        (case (m_transactionData message, m_winnerPubkey message) of
           (Some t, Some w) \<Rightarrow>
             if w = [] then (s, [])
             else (s \<lparr> pendingFinish := Some \<lparr> pf_winnerPubkey = w,
                          pf_transactionData = t \<rparr> \<rparr>, [])
         | _ \<Rightarrow> (s, []))
      else if m_type message = Some ''finish_signed''
              \<and> m_gamePubkey message = Some (gamePubkey s) then
        (if m_playerPubkey message = Some (myPubkey s) then (s, [])
         else case (m_transactionData message, m_winnerPubkey message) of
           (Some t, Some w) \<Rightarrow>
             if w = [] then (s, [])
             else (case tx_from e t of
                None \<Rightarrow> (s, [])
              | Some tx \<Rightarrow> submitFinishTransaction e s tx w)
         | _ \<Rightarrow> (s, []))
      else if m_type message = Some ''game_finished''
              \<and> m_gamePubkey message = Some (gamePubkey s) then
        (s \<lparr> winnerBanner :=
               Some (case m_winnerPubkey message of
                       None \<Rightarrow> ''Unknown''
                     | Some w \<Rightarrow> if w = [] then ''Unknown'' else w),
             isMyTurn := False \<rparr>, [BackAfter 5000])
      else (s, []))"

text \<open>\<open>handleCellClick\<close>.\<close>

definition handleCellClick :: "engine \<Rightarrow> nat \<Rightarrow> engine" where
  "handleCellClick s index =
     (if \<not> isMyTurn s \<or> dice s = None \<or> isProcessingMove s then s
      else s \<lparr> selectedCell := Some index \<rparr>)"



definition createFinishTransaction :: "env \<Rightarrow> string \<Rightarrow> transaction option" where
  "createFinishTransaction e winner =
     (if \<not> provider_ready e then None
      else case chain_game e of
        None \<Rightarrow> None
      | Some g \<Rightarrow>
          if ''finish_game'' \<notin> set (idl_instructions e) then None
          else (case latest_blockhash e of
              None \<Rightarrow> None
            | Some blockhash \<Rightarrow>
                Some \<lparr> signatures = [], feePayer = Some winner,
                       recentBlockhash = Some blockhash,
                       signer_keys = [player1 g, player2 g],
                       instruction = FinishGame winner \<rparr>))"




text \<open>
  \<open>confirmWin\<close>: the finish transaction names the caller as winner and fee payer, is
  signed with the caller's key pair and is handed to \<open>wsClient.sendFinishRequest\<close>.
\<close>

definition win_alert :: effect where
  "win_alert = Alert ''Failed to confirm win. Please try again.''"

definition confirmWin :: "env \<Rightarrow> engine \<Rightarrow> engine \<times> effect list" where
  "confirmWin e s =
     (if \<not> isMyTurn s \<or> isProcessingFinish s then (s, [])
      else
        (let done = s \<lparr> isProcessingFinish := False \<rparr>
         in case createFinishTransaction e (myPubkey s) of
           None \<Rightarrow> (done, [win_alert])
         | Some tx \<Rightarrow>
            (case current_keypair e of
               None \<Rightarrow> (done, [win_alert])
             | Some k \<Rightarrow>
                (case tx_partialSign e k tx of
                   None \<Rightarrow> (done, [win_alert])
                 | Some tx1 \<Rightarrow>
                    (case tx_serialize e False tx1 of
                       None \<Rightarrow> (done, [win_alert])
                     | Some serializedTx \<Rightarrow>
                        (case wsClient_invoke ''sendFinishRequest''
                           (ws_send e (no_fields \<lparr> m_type := Some ''finish_request'',
                              m_gamePubkey := Some (gamePubkey s),
                              m_playerPubkey := Some (myPubkey s),
                              m_transactionData := Some serializedTx,
                              m_winnerPubkey := Some (myPubkey s) \<rparr>)) of
                           Inl _ \<Rightarrow> (done, [win_alert])
                         | Inr sent \<Rightarrow>
                            (done \<lparr> pendingFinish := Some
                                 \<lparr> pf_winnerPubkey = myPubkey s,
                                   pf_transactionData = serializedTx \<rparr> \<rparr>, sent)))))))"

text \<open>A transaction that arrives without a recent blockhash gets a fresh one.\<close>

definition with_blockhash :: "env \<Rightarrow> transaction \<Rightarrow> transaction option" where
  "with_blockhash e tx =
     (case recentBlockhash tx of
        Some _ \<Rightarrow> Some tx
      | None \<Rightarrow>
          if \<not> provider_ready e then None
          else (case latest_blockhash e of
              None \<Rightarrow> None
            | Some blockhash \<Rightarrow> Some (tx \<lparr> recentBlockhash := Some blockhash \<rparr>)))"

text \<open>
  \<open>handlePendingMoveSignature\<close>, run by the button \<open>Sign & Approve Move\<close>: the counterpart
  adds its signature and returns the transaction in a \<open>move_signed\<close> message.
\<close>

definition sign_move_alert :: effect where
  "sign_move_alert = Alert ''Failed to sign move. Please try again.''"

definition handlePendingMoveSignature :: "env \<Rightarrow> engine \<Rightarrow> engine \<times> effect list" where
  "handlePendingMoveSignature e s =
     (case pendingMove s of
        None \<Rightarrow> (s, [])
      | Some pm \<Rightarrow>
         (case pm_transactionData pm of
            None \<Rightarrow> (s, [])
          | Some t \<Rightarrow>
             (case current_keypair e of
                None \<Rightarrow> (s, [sign_move_alert])
              | Some k \<Rightarrow>
                 (case tx_from e t of
                    None \<Rightarrow> (s, [sign_move_alert])
                  | Some tx \<Rightarrow>
                     (case with_blockhash e tx of
                        None \<Rightarrow> (s, [sign_move_alert])
                      | Some tx1 \<Rightarrow>
                         (case tx_partialSign e k tx1 of
                            None \<Rightarrow> (s, [sign_move_alert])
                          | Some tx2 \<Rightarrow>
                             (case tx_serialize e True tx2 of
                                None \<Rightarrow> (s, [sign_move_alert])
                              | Some serializedTx \<Rightarrow>
                                 (case wsClient_invoke ''sendMoveSigned''
                                    (sendMoveSigned e (gamePubkey s)
                                      (no_fields \<lparr> m_type := Some ''move_signed'',
                                         m_gamePubkey := Some (gamePubkey s),
                                         m_playerPubkey := Some (myPubkey s),
                                         m_moveIndex := Some (pm_moveIndex pm),
                                         m_boardPoints := Some (pm_boardPoints pm),
                                         m_dice := Some (die_list (pm_dice pm)),
                                         m_transactionData := Some serializedTx \<rparr>)) of
                                    Inl _ \<Rightarrow> (s, [sign_move_alert])
                                  | Inr sent \<Rightarrow> (s \<lparr> pendingMove := None \<rparr>, sent)))))))))"

text \<open>
  \<open>handlePendingFinishSignature\<close>: the same steps for a pending finish, ending in
  \<open>wsClient.sendFinishSigned\<close>.
\<close>

definition sign_finish_alert :: effect where
  "sign_finish_alert = Alert ''Failed to sign finish. Please try again.''"

definition handlePendingFinishSignature :: "env \<Rightarrow> engine \<Rightarrow> engine \<times> effect list" where
  "handlePendingFinishSignature e s =
     (case pendingFinish s of
        None \<Rightarrow> (s, [])
      | Some pf \<Rightarrow>
         (case current_keypair e of
            None \<Rightarrow> (s, [sign_finish_alert])
          | Some k \<Rightarrow>
             (case tx_from e (pf_transactionData pf) of
                None \<Rightarrow> (s, [sign_finish_alert])
              | Some tx \<Rightarrow>
                 (case with_blockhash e tx of
                    None \<Rightarrow> (s, [sign_finish_alert])
                  | Some tx1 \<Rightarrow>
                     (case tx_partialSign e k tx1 of
                        None \<Rightarrow> (s, [sign_finish_alert])
                      | Some tx2 \<Rightarrow>
                         (case tx_serialize e True tx2 of
                            None \<Rightarrow> (s, [sign_finish_alert])
                          | Some serializedTx \<Rightarrow>
                             (case wsClient_invoke ''sendFinishSigned''
                                (ws_send e (no_fields \<lparr> m_type := Some ''finish_signed'',
                                   m_gamePubkey := Some (gamePubkey s),
                                   m_playerPubkey := Some (myPubkey s),
                                   m_transactionData := Some serializedTx,
                                   m_winnerPubkey := Some (pf_winnerPubkey pf) \<rparr>)) of
                                Inl _ \<Rightarrow> (s, [sign_finish_alert])
                              | Inr sent \<Rightarrow> (s \<lparr> pendingFinish := None \<rparr>, sent))))))))"

text \<open>
  The effect with dependencies \<open>handlePendingFinishSignature\<close>, \<open>isMyTurn\<close>,
  \<open>pendingFinish\<close>: a pending finish is signed without a click while it is not this
  engine's turn.
\<close>

definition autoSignPendingFinish :: "env \<Rightarrow> engine \<Rightarrow> engine \<times> effect list" where
  "autoSignPendingFinish e s =
     (if \<not> isMyTurn s \<and> pendingFinish s \<noteq> None then handlePendingFinishSignature e s
      else (s, []))"

text \<open>Whether a transaction carries a signature of the given key.\<close>

definition signed_by :: "transaction \<Rightarrow> string \<Rightarrow> bool" where
  "signed_by tx k = (k \<in> set (map fst (filter (\<lambda>slot. snd slot \<noteq> None) (signatures tx))))"

text \<open>The transactions handed to \<open>sendRawTransaction\<close> among a list of effects.\<close>

fun submitted :: "effect list \<Rightarrow> transaction list" where
  "submitted [] = []"
| "submitted (SendRawTransaction tx bytes # es) = tx # submitted es"
| "submitted (_ # es) = submitted es"

fun sent_frames :: "effect list \<Rightarrow> ws_message list" where
  "sent_frames [] = []"
| "sent_frames (WsSend m # es) = m # sent_frames es"
| "sent_frames (_ # es) = sent_frames es"

section \<open>A concrete session\<close>

definition demo_relay :: relay where
  "demo_relay = \<lparr> clients = [1, 2, 3, 4],
     readyState = (\<lambda>c. c \<noteq> 4),
     clientSubscriptions =
       [1 \<mapsto> \<lparr> sub_gamePubkey = ''S1'', sub_playerPubkey = ''P1'' \<rparr>,
        2 \<mapsto> \<lparr> sub_gamePubkey = ''S1'', sub_playerPubkey = ''P2'' \<rparr>,
        3 \<mapsto> \<lparr> sub_gamePubkey = ''S2'', sub_playerPubkey = ''P3'' \<rparr>,
        4 \<mapsto> \<lparr> sub_gamePubkey = ''S1'', sub_playerPubkey = ''P2'' \<rparr>],
     games = [''S1'' \<mapsto> \<lparr> player1 = ''P1'', player2 = ''P2'' \<rparr>] \<rparr>"

definition demo_move_request :: ws_message where
  "demo_move_request = no_fields \<lparr> m_type := Some ''move_request'',
     m_gamePubkey := Some ''S1'', m_playerPubkey := Some ''P1'', m_moveIndex := Some 1,
     m_dice := Some [Some 3, Some 5] \<rparr>"

definition demo_chat_relay :: chat_relay where
  "demo_chat_relay = \<lparr> cr_clients = [1, 2], cr_open = (\<lambda>c. True),
     cr_client = (\<lambda>c. \<lparr> wc_gamePubkey = Some ''S1'', wc_playerPubkey = Some ''P1'' \<rparr>) \<rparr>"

definition stranger_relay :: relay where
  "stranger_relay = demo_relay \<lparr> clients := [1, 2, 3, 4, 5], clientSubscriptions :=
      (clientSubscriptions demo_relay)(3 := None) \<rparr>"

definition unknown_game_request :: ws_message where
  "unknown_game_request = demo_move_request \<lparr> m_gamePubkey := Some ''S2'' \<rparr>"

definition demo_game :: game where
  "demo_game = \<lparr> player1 = ''P1'', player2 = ''P2'' \<rparr>"

text \<open>The engine of participant \<open>P1\<close> in session \<open>S1\<close>, on its turn, with dice and a cell selected.\<close>

definition demo_engine :: engine where
  "demo_engine = \<lparr> gamePubkey = ''S1'', myPubkey = ''P1'',
     boardPoints = [- 30, 0, 0, 30], dice = Some (Some 3, Some 5), currentTurn = JNum 1,
     isMyTurn = True, isRolling = False, isProcessingMove = False,
     isProcessingFinish = False, selectedCell = Some 3, pendingMove = None,
     pendingFinish = None, winnerBanner = None, gameInfo = Some demo_game \<rparr>"

definition proposal_6 :: pending_move where
  "proposal_6 = \<lparr> pm_boardPoints = [- 29, 0, 0, 30], pm_dice = (Some 3, Some 5),
     pm_moveIndex = 6, pm_transactionData = None \<rparr>"

text \<open>The same engine while its proposal number 6 is still outstanding.\<close>

definition busy_engine :: engine where
  "busy_engine = demo_engine \<lparr> pendingMove := Some proposal_6 \<rparr>"

text \<open>The engine of \<open>P2\<close>, not on its turn, holding a finish request of \<open>P1\<close>.\<close>

definition waiting_engine :: engine where
  "waiting_engine = demo_engine \<lparr> myPubkey := ''P2'', isMyTurn := False, dice := None,
     selectedCell := None,
     pendingFinish := Some \<lparr> pf_winnerPubkey = ''P1'', pf_transactionData = [3] \<rparr> \<rparr>"

definition cosigned_tx :: transaction where
  "cosigned_tx = \<lparr> signatures = [(''P1'', Some [1]), (''P2'', Some [2])],
     feePayer = Some ''P1'', recentBlockhash = Some ''h'', signer_keys = [''P1'', ''P2''],
     instruction = MakeMove [- 30, 0, 0, 29] (Some 3, Some 5) \<rparr>"

definition single_signer_tx :: transaction where
  "single_signer_tx = \<lparr> signatures = [(''P2'', Some [2])],
     feePayer = Some ''P2'', recentBlockhash = Some ''h'', signer_keys = [''P2''],
     instruction = FinishGame ''P2'' \<rparr>"

definition finish_request_tx :: transaction where
  "finish_request_tx = \<lparr> signatures = [(''P1'', Some [1]), (''P2'', None)],
     feePayer = Some ''P1'', recentBlockhash = Some ''h'', signer_keys = [''P1'', ''P2''],
     instruction = FinishGame ''P1'' \<rparr>"

text \<open>A move transaction that \<open>P2\<close> built and signed alone.\<close>

definition foreign_tx :: transaction where
  "foreign_tx = \<lparr> signatures = [(''P2'', Some [2]), (''P1'', None)],
     feePayer = Some ''P2'', recentBlockhash = Some ''h'', signer_keys = [''P1'', ''P2''],
     instruction = MakeMove [- 30, 0, 1, 29] (Some 3, Some 5) \<rparr>"

text \<open>
  A transaction library for the examples. The bytes \<open>[1]\<close>, \<open>[2]\<close>, \<open>[3]\<close>, \<open>[4]\<close> decode
  to the four transactions above; \<open>serialize\<close>, called without signature verification, writes
  the slots as they are (an empty one as a zero) and never refuses; \<open>partialSign\<close> fills the
  slot of the signing key.
\<close>

definition demo_from :: "nat list \<Rightarrow> transaction option" where
  "demo_from bytes =
     (if bytes = [1] then Some cosigned_tx
      else if bytes = [2] then Some single_signer_tx
      else if bytes = [3] then Some finish_request_tx
      else if bytes = [4] then Some foreign_tx
      else None)"

definition demo_serialize :: "bool \<Rightarrow> transaction \<Rightarrow> nat list option" where
  "demo_serialize requireAllSignatures tx =
     Some (concat (map (\<lambda>slot. case snd slot of None \<Rightarrow> [0] | Some sg \<Rightarrow> sg)
             (signatures tx)))"

definition demo_partialSign :: "string \<Rightarrow> transaction \<Rightarrow> transaction option" where
  "demo_partialSign k tx =
     (let slots = (if signatures tx = [] then map (\<lambda>p. (p, None)) (signer_keys tx)
                   else signatures tx)
      in if k \<in> set (map fst slots) then
           Some (tx \<lparr> signatures :=
             map (\<lambda>slot. if fst slot = k then (k, Some [7]) else slot) slots \<rparr>)
         else None)"

definition demo_env :: env where
  "demo_env = \<lparr> provider_ready = True, current_keypair = Some ''P1'', ws_open = True,
     tx_from = demo_from, tx_serialize = demo_serialize, tx_partialSign = demo_partialSign,
     ledger = (\<lambda>bytes. Confirmed), chain_game = Some demo_game,
     latest_blockhash = Some ''h'', idl_instructions = [''make_move'', ''finish_game''],
     get_game = Some (demo_game, 6), log_move_ok = True,
     roll_dice = Some (Some 3, Some 5) \<rparr>"

text \<open>The same environment with a ledger that rejects what it is sent.\<close>

definition rejecting_env :: env where
  "rejecting_env = demo_env \<lparr> ledger := (\<lambda>bytes. Rejected) \<rparr>"

definition signed_move :: ws_message where
  "signed_move = no_fields \<lparr> m_type := Some ''move_signed'', m_gamePubkey := Some ''S1'',
     m_playerPubkey := Some ''P2'', m_moveIndex := Some 7,
     m_boardPoints := Some [- 30, 0, 0, 29], m_dice := Some [Some 3, Some 5],
     m_transactionData := Some [1] \<rparr>"

definition bare_signed_move :: ws_message where
  "bare_signed_move = no_fields \<lparr> m_type := Some ''move_signed'',
     m_gamePubkey := Some ''S1'', m_playerPubkey := Some ''P2'', m_moveIndex := Some 7 \<rparr>"

definition own_signed_move :: ws_message where
  "own_signed_move = signed_move \<lparr> m_playerPubkey := Some ''P1'' \<rparr>"

definition lone_finish_signed :: ws_message where
  "lone_finish_signed = no_fields \<lparr> m_type := Some ''finish_signed'',
     m_gamePubkey := Some ''S1'', m_playerPubkey := Some ''P2'',
     m_winnerPubkey := Some ''P2'', m_transactionData := Some [2] \<rparr>"

definition lone_move_signed :: ws_message where
  "lone_move_signed = signed_move \<lparr> m_transactionData := Some [2] \<rparr>"

definition turn_announcement :: ws_message where
  "turn_announcement = no_fields \<lparr> m_type := Some ''turn_changed'',
     m_gamePubkey := Some ''S1'', m_newTurn := Some (JNum 2) \<rparr>"

text \<open>The engine after it has handled \<open>signed_move\<close> once.\<close>

definition after_submission :: engine where
  "after_submission = fst (messageHandler demo_env None busy_engine signed_move)"

definition counterpart_env :: env where
  "counterpart_env = demo_env \<lparr> current_keypair := Some ''P2'' \<rparr>"


definition turn_completed_2 :: ws_message where
  "turn_completed_2 = no_fields \<lparr> m_type := Some ''turn_completed'',
     m_gamePubkey := Some ''S1'', m_playerPubkey := Some ''P1'',
     m_newTurn := Some (JNum 2) \<rparr>"

text \<open>
  A \<open>move_signed\<close> message carrying the transaction that \<open>P2\<close> built alone, and the engine of
  a third key \<open>P3\<close> that has proposed nothing.
\<close>

definition foreign_signed_move :: ws_message where
  "foreign_signed_move = no_fields \<lparr> m_type := Some ''move_signed'',
     m_gamePubkey := Some ''S1'', m_playerPubkey := Some ''P2'', m_moveIndex := Some 7,
     m_boardPoints := Some [- 30, 0, 1, 29], m_dice := Some [Some 3, Some 5],
     m_transactionData := Some [4] \<rparr>"

definition outsider_engine :: engine where
  "outsider_engine = demo_engine \<lparr> myPubkey := ''P3'', isMyTurn := False, dice := None,
     selectedCell := None \<rparr>"




definition silent_turn_changed :: ws_message where
  "silent_turn_changed = no_fields \<lparr> m_type := Some ''turn_changed'',
     m_gamePubkey := Some ''S1'' \<rparr>"

text \<open>A finish request for a session that is in no games table, and a chat line.\<close>

definition unknown_finish_request :: ws_message where
  "unknown_finish_request = no_fields \<lparr> m_type := Some ''finish_request'',
     m_gamePubkey := Some ''S2'', m_playerPubkey := Some ''P1'',
     m_winnerPubkey := Some ''P1'', m_transactionData := Some [3] \<rparr>"

section \<open>Facts about the relay and the engine\<close>

lemma subscribed_to_iff:
  "subscribed_to r (Some S) c \<longleftrightarrow>
     readyState r c \<and> (\<exists>s. clientSubscriptions r c = Some s \<and> sub_gamePubkey s = S)"
  by (auto simp: subscribed_to_def split: option.splits)

lemma fan_out_iff:
  "(c, f) \<in> set (fan_out r g payload) \<longleftrightarrow>
     c \<in> set (clients r) \<and> subscribed_to r g c \<and> f = payload"
  by (auto simp: fan_out_def)

lemma invoke_sendTurnCompleted: "wsClient_invoke ''sendTurnCompleted'' b = Inr b"
  by (simp add: wsClient_invoke_def WebSocketClient_methods_def)

lemma invoke_sendMoveRequest: "wsClient_invoke ''sendMoveRequest'' b = Inr b"
  by (simp add: wsClient_invoke_def WebSocketClient_methods_def)

lemma invoke_sendMoveSigned: "wsClient_invoke ''sendMoveSigned'' b = Inr b"
  by (simp add: wsClient_invoke_def WebSocketClient_methods_def)

lemma invoke_sendFinishRequest:
  "wsClient_invoke ''sendFinishRequest'' b =
     Inl (TypeError ''wsClient.sendFinishRequest is not a function'')"
  by (simp add: wsClient_invoke_def WebSocketClient_methods_def)

lemma invoke_sendFinishSigned:
  "wsClient_invoke ''sendFinishSigned'' b =
     Inl (TypeError ''wsClient.sendFinishSigned is not a function'')"
  by (simp add: wsClient_invoke_def WebSocketClient_methods_def)

lemma invoke_sendGameFinished:
  "wsClient_invoke ''sendGameFinished'' b =
     Inl (TypeError ''wsClient.sendGameFinished is not a function'')"
  by (simp add: wsClient_invoke_def WebSocketClient_methods_def)

lemmas invoke_simps = invoke_sendTurnCompleted invoke_sendMoveRequest invoke_sendMoveSigned
  invoke_sendFinishRequest invoke_sendFinishSigned invoke_sendGameFinished

lemma handlePendingFinishSignature_alerts:
  "handlePendingFinishSignature e s =
     (s, if pendingFinish s = None then [] else [sign_finish_alert])"
  by (simp add: handlePendingFinishSignature_def invoke_simps split: option.splits)

lemma confirmWin_alerts:
  "confirmWin e s = (s, if \<not> isMyTurn s \<or> isProcessingFinish s then [] else [win_alert])"
  by (simp add: confirmWin_def Let_def invoke_simps split: option.splits)

lemma mh_move_signed:
  "m_type message = Some ''move_signed'' \<Longrightarrow>
   messageHandler e pm s message =
     (if m_playerPubkey message = Some (myPubkey s) then (s, [])
      else case (m_transactionData message, m_boardPoints message, m_dice message) of
        (Some t, Some b, Some d) \<Rightarrow>
          (case tx_from e t of
             None \<Rightarrow> (s, [])
           | Some tx \<Rightarrow>
               if length (signatures tx) < 2 then
                 (s, [Alert ''Transaction is missing signatures. Please try again.''])
               else submitSignedTransactionToBlockchain e s (with_fee_payer e tx) b (die_pair d))
      | _ \<Rightarrow>
          (case pm of
             None \<Rightarrow> (s, [])
           | Some p \<Rightarrow> submitMoveToBlockchain s (pm_boardPoints p) (pm_dice p)))"
  by (simp add: messageHandler_def)

lemma mh_finish_signed:
  "m_type message = Some ''finish_signed'' \<Longrightarrow>
   messageHandler e pm s message =
     (if m_gamePubkey message \<noteq> Some (gamePubkey s) then (s, [])
      else if m_playerPubkey message = Some (myPubkey s) then (s, [])
      else case (m_transactionData message, m_winnerPubkey message) of
        (Some t, Some w) \<Rightarrow>
          if w = [] then (s, [])
          else (case tx_from e t of
             None \<Rightarrow> (s, [])
           | Some tx \<Rightarrow> submitFinishTransaction e s tx w)
      | _ \<Rightarrow> (s, []))"
  by (simp add: messageHandler_def)

lemma mh_turn_changed:
  "m_type message = Some ''turn_changed'' \<Longrightarrow>
   messageHandler e pm s message =
     (case m_newTurn message of
        None \<Rightarrow> (s, [])
      | Some newTurn \<Rightarrow>
          (s \<lparr> currentTurn := newTurn,
               isMyTurn := (case gameInfo s of
                   None \<Rightarrow> isMyTurn s
                 | Some gi \<Rightarrow> (newTurn = JNum 1 \<and> myPubkey s = player1 gi) \<or>
                              (newTurn = JNum 2 \<and> myPubkey s \<noteq> player1 gi)),
               dice := None, selectedCell := None, pendingMove := None,
               isRolling := False, isProcessingMove := False \<rparr>, []))"
  by (simp add: messageHandler_def)

lemma mh_other_no_submission:
  "m_type message \<noteq> Some ''move_signed'' \<Longrightarrow> m_type message \<noteq> Some ''finish_signed'' \<Longrightarrow>
   submitted (snd (messageHandler e pm s message)) = []"
  by (simp add: messageHandler_def split: option.splits)

lemma submitMove_no_submission:
  "submitted (snd (submitMoveToBlockchain s b d)) = []"
  by (simp add: submitMoveToBlockchain_def)

lemma submitted_ws_send: "submitted (ws_send e m) = []"
  by (simp add: ws_send_def)

lemma signatures_with_fee_payer: "signatures (with_fee_payer e tx) = signatures tx"
  by (simp add: with_fee_payer_def split: option.splits)

lemma submitted_submitSigned:
  "submitted (snd (submitSignedTransactionToBlockchain e s tx b d)) =
     (if provider_ready e \<and> 2 \<le> length (signatures tx) then
        (case tx_serialize e True tx of None \<Rightarrow> [] | Some bytes \<Rightarrow> [tx])
      else [])"
  by (simp add: submitSignedTransactionToBlockchain_def submit_alert_def
      invoke_sendTurnCompleted sendTurnCompleted_def submitted_ws_send
      split: option.splits ledger_result.splits)

lemma turn_kept_submitSigned:
  "currentTurn (fst (submitSignedTransactionToBlockchain e s tx b d)) = currentTurn s \<and>
   isMyTurn (fst (submitSignedTransactionToBlockchain e s tx b d)) = isMyTurn s"
  by (simp add: submitSignedTransactionToBlockchain_def invoke_sendTurnCompleted
      split: option.splits ledger_result.splits)

lemma frames_submitSigned:
  "m \<in> set (sent_frames (snd (submitSignedTransactionToBlockchain e s tx b d))) \<Longrightarrow>
   m = no_fields \<lparr> m_type := Some ''turn_completed'', m_gamePubkey := Some (gamePubkey s),
         m_playerPubkey := Some (myPubkey s),
         m_newTurn := Some (JNum (if currentTurn s = JNum 1 then 2 else 1)) \<rparr>"
  by (simp add: submitSignedTransactionToBlockchain_def submit_alert_def
      invoke_sendTurnCompleted sendTurnCompleted_def ws_send_def
      split: option.splits ledger_result.splits if_splits)

lemma signed_move_submitted:
  "submitted (snd (messageHandler demo_env None busy_engine signed_move)) = [cosigned_tx]"
proof -
  have m: "m_type signed_move = Some ''move_signed''"
    by (simp add: signed_move_def no_fields_def)
  show ?thesis
    by (subst mh_move_signed [OF m])
      (simp add: submitted_submitSigned signatures_with_fee_payer
        signed_move_def no_fields_def busy_engine_def demo_engine_def demo_env_def
        demo_from_def demo_serialize_def cosigned_tx_def with_fee_payer_def)
qed



lemma submitted_submitFinish:
  "submitted (snd (submitFinishTransaction e s tx w)) =
     (if provider_ready e then
        (case tx_serialize e True tx of None \<Rightarrow> [] | Some bytes \<Rightarrow> [tx])
      else [])"
  by (simp add: submitFinishTransaction_def invoke_sendGameFinished
      split: option.splits ledger_result.splits)

lemma myPubkey_submitSigned:
  "myPubkey (fst (submitSignedTransactionToBlockchain e s tx b d)) = myPubkey s"
  by (simp add: submitSignedTransactionToBlockchain_def invoke_sendTurnCompleted
      split: option.splits ledger_result.splits)

lemma move_signed_submits:
  assumes "m_type message = Some ''move_signed''"
    and "m_playerPubkey message \<noteq> Some (myPubkey s)"
    and "m_transactionData message = Some t"
    and "m_boardPoints message = Some b"
    and "m_dice message = Some d"
    and "tx_from e t = Some tx"
    and "2 \<le> length (signatures tx)"
    and "provider_ready e"
    and "tx_serialize e True (with_fee_payer e tx) = Some bytes"
  shows "submitted (snd (messageHandler e seen s message)) = [with_fee_payer e tx]"
  using assms(2-9)
  by (simp add: mh_move_signed [OF assms(1)] submitted_submitSigned signatures_with_fee_payer)

lemma move_signed_keeps_key:
  assumes "m_type message = Some ''move_signed''"
  shows "myPubkey (fst (messageHandler e seen s message)) = myPubkey s"
  by (simp add: mh_move_signed [OF assms] myPubkey_submitSigned submitMoveToBlockchain_def
      split: option.splits)

lemma finish_signed_submits:
  assumes "m_type message = Some ''finish_signed''"
    and "m_gamePubkey message = Some (gamePubkey s)"
    and "m_playerPubkey message \<noteq> Some (myPubkey s)"
    and "m_transactionData message = Some t"
    and "m_winnerPubkey message = Some w"
    and "w \<noteq> []"
    and "tx_from e t = Some tx"
    and "provider_ready e"
    and "tx_serialize e True tx = Some bytes"
  shows "submitted (snd (messageHandler e seen s message)) = [tx]"
  using assms(2-9)
  by (simp add: mh_finish_signed [OF assms(1)] submitted_submitFinish)

lemma move_signed_state_free:
  assumes "m_type message = Some ''move_signed''"
    and "myPubkey s' = myPubkey s"
  shows "submitted (snd (messageHandler e seen' s' message))
       = submitted (snd (messageHandler e seen s message))"
  using assms(2)
  by (simp add: mh_move_signed [OF assms(1)] submitted_submitSigned submitMove_no_submission
      split: option.splits)

lemma submitSigned_confirmed:
  assumes "provider_ready e"
    and "tx_serialize e True tx = Some bytes"
    and "2 \<le> length (signatures tx)"
    and "ledger e bytes = Confirmed"
  shows "submitSignedTransactionToBlockchain e s tx b d =
     (s \<lparr> boardPoints := b, dice := Some d, pendingMove := None, selectedCell := None \<rparr>,
      SendRawTransaction tx bytes #
      (if ws_open e then
         [WsSend (no_fields \<lparr> m_type := Some ''turn_completed'',
            m_gamePubkey := Some (gamePubkey s), m_playerPubkey := Some (myPubkey s),
            m_newTurn := Some (JNum (if currentTurn s = JNum 1 then 2 else 1)) \<rparr>)]
       else []))"
  using assms
  by (simp add: submitSignedTransactionToBlockchain_def invoke_sendTurnCompleted
      sendTurnCompleted_def ws_send_def)

lemma mh_fallback:
  assumes "m_type message = Some ''move_signed''"
    and "m_playerPubkey message \<noteq> Some (myPubkey s)"
    and "m_transactionData message = None \<or> m_boardPoints message = None
         \<or> m_dice message = None"
  shows "messageHandler e (Some pm) s message =
     (s \<lparr> boardPoints := pm_boardPoints pm, dice := Some (pm_dice pm),
          currentTurn := JNum (if currentTurn s = JNum 1 then 2 else 1),
          isMyTurn := (\<not> isMyTurn s), pendingMove := None, selectedCell := None \<rparr>, [])"
  using assms(2,3)
  by (auto simp add: mh_move_signed [OF assms(1)] submitMoveToBlockchain_def
      split: option.splits)


lemma fan_out_without_sender:
  "filter (\<lambda>cf. fst cf \<noteq> ws)
     (fan_out (r \<lparr> clientSubscriptions := (clientSubscriptions r)(ws := None) \<rparr>) g payload)
   = filter (\<lambda>cf. fst cf \<noteq> ws) (fan_out r g payload)"
proof -
  have "filter (\<lambda>x. subscribed_to
            (r \<lparr> clientSubscriptions := (clientSubscriptions r)(ws := None) \<rparr>) g x \<and> x \<noteq> ws) xs
      = filter (\<lambda>x. subscribed_to r g x \<and> x \<noteq> ws) xs" for xs
    by (rule filter_cong) (auto simp add: subscribed_to_def)
  then show ?thesis
    by (simp add: fan_out_def filter_map o_def)
qed

lemma on_message_without_sender:
  "filter (\<lambda>cf. fst cf \<noteq> ws)
     (snd (on_message parse (r \<lparr> clientSubscriptions := (clientSubscriptions r)(ws := None) \<rparr>)
        ws data))
   = filter (\<lambda>cf. fst cf \<noteq> ws) (snd (on_message parse r ws data))"
  by (simp add: on_message_def forward_checked_def gameStmt_get_def fan_out_without_sender
      split: option.splits)

lemma on_message_plain_fan_out:
  assumes "parse data = Some message"
    and "m_type message = Some ''chat'' \<or> m_type message = Some ''finish_request''
         \<or> m_type message = Some ''game_finished'' \<or> m_type message = Some ''manual_finished''"
  shows "on_message parse r ws data = (r, fan_out r (m_gamePubkey message) message)"
  using assms(2)
proof (elim disjE)
  assume "m_type message = Some ''chat''"
  with assms(1) show ?thesis by (simp add: on_message_def)
next
  assume "m_type message = Some ''finish_request''"
  with assms(1) show ?thesis by (simp add: on_message_def)
next
  assume "m_type message = Some ''game_finished''"
  with assms(1) show ?thesis by (simp add: on_message_def)
next
  assume "m_type message = Some ''manual_finished''"
  with assms(1) show ?thesis by (simp add: on_message_def)
qed

lemma on_message_unknown_game:
  assumes "parse data = Some message"
    and "m_type message = Some ''move_request'' \<or> m_type message = Some ''move_signed''
         \<or> m_type message = Some ''finish_signed''"
    and "gameStmt_get r (m_gamePubkey message) = None"
  shows "on_message parse r ws data = (r, [(ws, error_reply ''Game not found'')])"
proof -
  have fwd: "forward_checked r ws message = [(ws, error_reply ''Game not found'')]"
    using assms(3) by (simp add: forward_checked_def)
  from assms(2) show ?thesis
  proof (elim disjE)
    assume "m_type message = Some ''move_request''"
    with assms(1) fwd show ?thesis by (simp add: on_message_def)
  next
    assume "m_type message = Some ''move_signed''"
    with assms(1) fwd show ?thesis by (simp add: on_message_def)
  next
    assume "m_type message = Some ''finish_signed''"
    with assms(1) fwd show ?thesis by (simp add: on_message_def)
  qed
qed

lemma on_message_turn_completed:
  assumes "parse data = Some q" and "m_type q = Some ''turn_completed''"
  shows "on_message parse r ws data = (r, fan_out r (m_gamePubkey q) (turn_changed_of q))"
  using assms by (simp add: on_message_def)


section \<open>The claims\<close>

text \<open>
  Claim C1 says that every move or finish transaction the engine submits carries the
  signatures of both participants. The engine of \<open>P1\<close> receives a \<open>finish_signed\<close>
  message of \<open>P2\<close> whose transaction has a single signature slot, filled by \<open>P2\<close>: it
  hands that transaction to \<open>sendRawTransaction\<close>, although \<open>P1\<close> has not signed it. The
  move path stops the same transaction, because it counts the signature slots first; the
  finish path has no such test.
\<close>

theorem finish_submitted_with_one_signature:
  "submitted (snd (messageHandler demo_env None demo_engine lone_finish_signed))
     = [single_signer_tx] \<and>
   signed_by single_signer_tx ''P2'' \<and> \<not> signed_by single_signer_tx ''P1'' \<and>
   snd (messageHandler demo_env None demo_engine lone_move_signed)
     = [Alert ''Transaction is missing signatures. Please try again.'']"
proof -
  have f: "m_type lone_finish_signed = Some ''finish_signed''"
    by (simp add: lone_finish_signed_def no_fields_def)
  have m: "m_type lone_move_signed = Some ''move_signed''"
    by (simp add: lone_move_signed_def signed_move_def no_fields_def)
  have "submitted (snd (messageHandler demo_env None demo_engine lone_finish_signed))
     = [single_signer_tx]"
    by (subst mh_finish_signed [OF f])
      (simp add: lone_finish_signed_def no_fields_def demo_engine_def
        demo_env_def demo_from_def submitFinishTransaction_def demo_serialize_def
        single_signer_tx_def invoke_sendGameFinished)
  moreover have "snd (messageHandler demo_env None demo_engine lone_move_signed)
     = [Alert ''Transaction is missing signatures. Please try again.'']"
    by (subst mh_move_signed [OF m])
      (simp add: lone_move_signed_def signed_move_def no_fields_def
        demo_engine_def demo_env_def demo_from_def single_signer_tx_def)
  moreover have "signed_by single_signer_tx ''P2'' \<and> \<not> signed_by single_signer_tx ''P1''"
    by (simp add: signed_by_def single_signer_tx_def)
  ultimately show ?thesis by simp
qed

text \<open>
  Claim C2, as stated, fails in its last clause, that only the original proposer ever
  submits. The engine of \<open>P3\<close>, which has proposed nothing, receives the \<open>move_signed\<close>
  message of \<open>P2\<close> and submits the transaction. And the engine of \<open>P1\<close>, with no pending
  move, receives a \<open>move_signed\<close> message with a transaction that \<open>P2\<close> built and \<open>P1\<close>
  never signed, and submits it.
\<close>

theorem non_proposer_submits_counterexample:
  "myPubkey outsider_engine = ''P3'' \<and> pendingMove outsider_engine = None \<and>
   submitted (snd (messageHandler demo_env None outsider_engine signed_move)) = [cosigned_tx] \<and>
   pendingMove demo_engine = None \<and> \<not> signed_by foreign_tx ''P1'' \<and>
   submitted (snd (messageHandler demo_env None demo_engine foreign_signed_move)) = [foreign_tx]"
proof -
  have "submitted (snd (messageHandler demo_env None outsider_engine signed_move))
      = [with_fee_payer demo_env cosigned_tx]"
    by (rule move_signed_submits [where t = "[1]" and bytes = "[1, 2]"])
      (simp_all add: signed_move_def no_fields_def outsider_engine_def demo_engine_def
        demo_env_def demo_from_def demo_serialize_def cosigned_tx_def with_fee_payer_def)
  moreover have "submitted (snd (messageHandler demo_env None demo_engine foreign_signed_move))
      = [with_fee_payer demo_env foreign_tx]"
    by (rule move_signed_submits [where t = "[4]" and bytes = "[2, 0]"])
      (simp_all add: foreign_signed_move_def no_fields_def demo_engine_def
        demo_env_def demo_from_def demo_serialize_def foreign_tx_def with_fee_payer_def)
  moreover have "with_fee_payer demo_env cosigned_tx = cosigned_tx"
    "with_fee_payer demo_env foreign_tx = foreign_tx"
    by (simp_all add: with_fee_payer_def cosigned_tx_def foreign_tx_def)
  moreover have "myPubkey outsider_engine = ''P3'' \<and> pendingMove outsider_engine = None \<and>
      pendingMove demo_engine = None \<and> \<not> signed_by foreign_tx ''P1''"
    by (simp add: outsider_engine_def demo_engine_def signed_by_def foreign_tx_def)
  ultimately show ?thesis by simp
qed

text \<open>
  Claim C2, amended. An engine ignores a \<open>move_signed\<close> or \<open>finish_signed\<close> message whose
  \<open>playerPubkey\<close> is its own public key: nothing changes and nothing happens. Every
  transaction the message handler submits comes from a \<open>move_signed\<close> or \<open>finish_signed\<close>
  message whose \<open>playerPubkey\<close> differs from the engine's own key. The engine does not check
  that it proposed the action: what it submits does not depend on its pending move, and it
  submits whenever a \<open>move_signed\<close> message with another \<open>playerPubkey\<close> carries transaction
  data, board and dice, the bytes decode to a transaction with at least two signature
  slots, a provider exists and the transaction serializes; likewise for a \<open>finish_signed\<close>
  message of its game with another \<open>playerPubkey\<close> that carries transaction data and a
  winner, whose bytes decode, when a provider exists and the transaction serializes.
\<close>

theorem submission_by_sender_identity:
  "((m_type message = Some ''move_signed'' \<or> m_type message = Some ''finish_signed'') \<and>
    m_playerPubkey message = Some (myPubkey s) \<longrightarrow>
      messageHandler e seen s message = (s, [])) \<and>
   (submitted (snd (messageHandler e seen s message)) \<noteq> [] \<longrightarrow>
      (m_type message = Some ''move_signed'' \<or> m_type message = Some ''finish_signed'') \<and>
      m_playerPubkey message \<noteq> Some (myPubkey s)) \<and>
   submitted (snd (messageHandler e seen' (s \<lparr> pendingMove := p \<rparr>) message))
     = submitted (snd (messageHandler e seen s message)) \<and>
   (m_type message = Some ''move_signed'' \<and> m_playerPubkey message \<noteq> Some (myPubkey s) \<and>
    m_transactionData message = Some t \<and> m_boardPoints message = Some b \<and>
    m_dice message = Some d \<and> tx_from e t = Some tx \<and> 2 \<le> length (signatures tx) \<and>
    provider_ready e \<and> tx_serialize e True (with_fee_payer e tx) = Some bytes \<longrightarrow>
      submitted (snd (messageHandler e seen s message)) = [with_fee_payer e tx]) \<and>
   (m_type message = Some ''finish_signed'' \<and> m_gamePubkey message = Some (gamePubkey s) \<and>
    m_playerPubkey message \<noteq> Some (myPubkey s) \<and> m_transactionData message = Some t \<and>
    m_winnerPubkey message = Some w \<and> w \<noteq> [] \<and> tx_from e t = Some tx \<and>
    provider_ready e \<and> tx_serialize e True tx = Some bytes \<longrightarrow>
      submitted (snd (messageHandler e seen s message)) = [tx])"
proof -
  have ignore: "messageHandler e seen s message = (s, [])"
    if ty: "m_type message = Some ''move_signed'' \<or> m_type message = Some ''finish_signed''"
      and me: "m_playerPubkey message = Some (myPubkey s)"
    using ty
  proof
    assume "m_type message = Some ''move_signed''"
    then show ?thesis using me by (simp add: mh_move_signed)
  next
    assume "m_type message = Some ''finish_signed''"
    then show ?thesis using me by (simp add: mh_finish_signed)
  qed
  have only: "(m_type message = Some ''move_signed'' \<or> m_type message = Some ''finish_signed'')
      \<and> m_playerPubkey message \<noteq> Some (myPubkey s)"
    if sub: "submitted (snd (messageHandler e seen s message)) \<noteq> []"
  proof -
    have ty: "m_type message = Some ''move_signed'' \<or> m_type message = Some ''finish_signed''"
      using sub mh_other_no_submission by blast
    moreover have "m_playerPubkey message \<noteq> Some (myPubkey s)"
    proof
      assume "m_playerPubkey message = Some (myPubkey s)"
      with ty have "messageHandler e seen s message = (s, [])" by (rule ignore)
      with sub show False by simp
    qed
    ultimately show ?thesis by blast
  qed
  have pending: "submitted (snd (messageHandler e seen' (s \<lparr> pendingMove := p \<rparr>) message))
      = submitted (snd (messageHandler e seen s message))"
  proof (cases "m_type message = Some ''move_signed''")
    case True
    then show ?thesis by (rule move_signed_state_free) simp
  next
    case ms: False
    show ?thesis
    proof (cases "m_type message = Some ''finish_signed''")
      case True
      then show ?thesis
        by (simp add: mh_finish_signed submitted_submitFinish split: option.splits)
    next
      case False
      with ms show ?thesis by (simp add: mh_other_no_submission)
    qed
  qed
  from ignore only pending move_signed_submits [of message s t b d e tx bytes seen]
    finish_signed_submits [of message s t w e tx bytes seen]
  show ?thesis by blast
qed

theorem submission_by_sender_identity_witness:
  "messageHandler demo_env None demo_engine own_signed_move = (demo_engine, []) \<and>
   m_playerPubkey signed_move \<noteq> Some (myPubkey busy_engine) \<and>
   submitted (snd (messageHandler demo_env None busy_engine signed_move)) = [cosigned_tx] \<and>
   submitted (snd (messageHandler demo_env None demo_engine signed_move)) = [cosigned_tx] \<and>
   submitted (snd (messageHandler demo_env None demo_engine lone_finish_signed))
     = [single_signer_tx]"
proof -
  have o: "m_type own_signed_move = Some ''move_signed''"
    "m_playerPubkey own_signed_move = Some (myPubkey demo_engine)"
    by (simp_all add: own_signed_move_def signed_move_def no_fields_def demo_engine_def)
  have own: "messageHandler demo_env None demo_engine own_signed_move = (demo_engine, [])"
    using submission_by_sender_identity
      [where message = own_signed_move and s = demo_engine and e = demo_env and seen = None] o
    by blast
  have fee: "with_fee_payer demo_env cosigned_tx = cosigned_tx"
    by (simp add: with_fee_payer_def cosigned_tx_def)
  have m: "m_type signed_move = Some ''move_signed''"
    "m_playerPubkey signed_move \<noteq> Some (myPubkey busy_engine)"
    "m_transactionData signed_move = Some [1]"
    "m_boardPoints signed_move = Some [- 30, 0, 0, 29]"
    "m_dice signed_move = Some [Some 3, Some 5]"
    by (simp_all add: signed_move_def no_fields_def busy_engine_def demo_engine_def)
  have v: "tx_from demo_env [1] = Some cosigned_tx" "2 \<le> length (signatures cosigned_tx)"
    "provider_ready demo_env"
    "tx_serialize demo_env True cosigned_tx = Some [1, 2]"
    by (simp_all add: demo_env_def demo_from_def demo_serialize_def cosigned_tx_def)
  have "submitted (snd (messageHandler demo_env None busy_engine signed_move))
      = [with_fee_payer demo_env cosigned_tx]"
    using submission_by_sender_identity
      [where message = signed_move and s = busy_engine and e = demo_env and seen = None
        and t = "[1]" and b = "[- 30, 0, 0, 29]" and d = "[Some 3, Some 5]"
        and tx = cosigned_tx and bytes = "[1, 2]"] m v fee
    by metis
  with fee have sub: "submitted (snd (messageHandler demo_env None busy_engine signed_move))
      = [cosigned_tx]"
    by simp
  have undo: "busy_engine \<lparr> pendingMove := None \<rparr> = demo_engine"
    by (simp add: busy_engine_def demo_engine_def)
  have "submitted (snd (messageHandler demo_env None (busy_engine \<lparr> pendingMove := None \<rparr>)
        signed_move))
      = submitted (snd (messageHandler demo_env None busy_engine signed_move))"
    using submission_by_sender_identity
      [where message = signed_move and s = busy_engine and e = demo_env and seen = None
        and seen' = None and p = None]
    by blast
  with sub undo have idle:
    "submitted (snd (messageHandler demo_env None demo_engine signed_move)) = [cosigned_tx]"
    by simp
  have f: "m_type lone_finish_signed = Some ''finish_signed''"
    "m_gamePubkey lone_finish_signed = Some (gamePubkey demo_engine)"
    "m_playerPubkey lone_finish_signed \<noteq> Some (myPubkey demo_engine)"
    "m_transactionData lone_finish_signed = Some [2]"
    "m_winnerPubkey lone_finish_signed = Some ''P2''" "''P2'' \<noteq> []"
    by (simp_all add: lone_finish_signed_def no_fields_def demo_engine_def)
  have w: "tx_from demo_env [2] = Some single_signer_tx"
    "tx_serialize demo_env True single_signer_tx = Some [2]"
    by (simp_all add: demo_env_def demo_from_def demo_serialize_def single_signer_tx_def)
  have fin: "submitted (snd (messageHandler demo_env None demo_engine lone_finish_signed))
      = [single_signer_tx]"
    using submission_by_sender_identity
      [where message = lone_finish_signed and s = demo_engine and e = demo_env and seen = None
        and t = "[2]" and w = "''P2''" and tx = single_signer_tx and bytes = "[2]"]
      f w v(3)
    by blast
  from own m(2) sub idle fin show ?thesis by blast
qed

text \<open>
  Claim C3. A \<open>move_request\<close> or \<open>move_signed\<close> message for a session \<open>S\<close> that is
  registered in the games table leaves the relay state as it is and is sent, unchanged, to
  exactly the connections that are open and whose subscription names \<open>S\<close>: each of them
  receives it (the sender's own connection included, when it is subscribed to \<open>S\<close>), and
  nothing is sent to a connection bound to another session or to none.
\<close>

theorem relay_move_fan_out:
  assumes "parse data = Some message"
    and "m_type message = Some ''move_request'' \<or> m_type message = Some ''move_signed''"
    and "m_gamePubkey message = Some S"
    and "games r S = Some g"
  shows "fst (on_message parse r ws data) = r \<and>
     (\<forall>c f. (c, f) \<in> set (snd (on_message parse r ws data)) \<longleftrightarrow>
        c \<in> set (clients r) \<and> readyState r c \<and>
        (\<exists>s. clientSubscriptions r c = Some s \<and> sub_gamePubkey s = S) \<and> f = message)"
proof -
  have fwd: "forward_checked r ws message = fan_out r (Some S) message"
    using assms(3,4) by (simp add: forward_checked_def gameStmt_get_def)
  from assms(2) have "on_message parse r ws data = (r, fan_out r (Some S) message)"
  proof
    assume "m_type message = Some ''move_request''"
    with assms(1) fwd show ?thesis by (simp add: on_message_def)
  next
    assume "m_type message = Some ''move_signed''"
    with assms(1) fwd show ?thesis by (simp add: on_message_def)
  qed
  then show ?thesis
    by (simp add: fan_out_iff subscribed_to_iff)
qed

theorem relay_move_fan_out_witness:
  "(1, demo_move_request) \<in> set (snd (on_message Some demo_relay 1 demo_move_request)) \<and>
   (2, demo_move_request) \<in> set (snd (on_message Some demo_relay 1 demo_move_request)) \<and>
   (3, demo_move_request) \<notin> set (snd (on_message Some demo_relay 1 demo_move_request)) \<and>
   (4, demo_move_request) \<notin> set (snd (on_message Some demo_relay 1 demo_move_request))"
  using relay_move_fan_out [of Some demo_move_request demo_move_request "''S1''" demo_relay
      "\<lparr> player1 = ''P1'', player2 = ''P2'' \<rparr>" 1]
  by (simp add: demo_relay_def demo_move_request_def no_fields_def)




text \<open>
  Claim C5, as stated, fails: the proposer handles \<open>signed_move\<close> and submits the
  transaction; the same message handled again in the resulting state is submitted a second
  time (here to a ledger that rejects it).
\<close>

theorem move_signed_replay_counterexample:
  "submitted (snd (messageHandler demo_env None busy_engine signed_move)) = [cosigned_tx] \<and>
   submitted (snd (messageHandler rejecting_env None after_submission signed_move))
     = [cosigned_tx]"
proof -
  have m: "m_type signed_move = Some ''move_signed''"
    by (simp add: signed_move_def no_fields_def)
  have me: "myPubkey after_submission = ''P1''"
    unfolding after_submission_def
    by (simp add: move_signed_keeps_key [OF m] busy_engine_def demo_engine_def)
  have "submitted (snd (messageHandler rejecting_env None after_submission signed_move))
     = [cosigned_tx]"
    by (subst mh_move_signed [OF m])
      (simp add: me submitted_submitSigned signatures_with_fee_payer
        signed_move_def no_fields_def rejecting_env_def demo_env_def
        demo_from_def demo_serialize_def cosigned_tx_def with_fee_payer_def)
  with signed_move_submitted show ?thesis by simp
qed

text \<open>
  Claim C5, amended. Handling a duplicate \<open>move_signed\<close> message is not idempotent at the
  engine. Which transactions a \<open>move_signed\<close> message makes the engine submit depends on
  the message, the environment and the engine's own public key only, not on the rest of its
  state. Whenever a \<open>move_signed\<close> message with another \<open>playerPubkey\<close> carries transaction
  data, board and dice, its bytes decode to a transaction with at least two signature
  slots, a provider exists and the transaction serializes, the engine hands the transaction
  to the ledger, and hands it over again when the same message is handled again in the state
  that the first handling left.
\<close>

theorem move_signed_replay_submits:
  "(m_type message = Some ''move_signed'' \<and> myPubkey s' = myPubkey s \<longrightarrow>
      submitted (snd (messageHandler e seen' s' message))
        = submitted (snd (messageHandler e seen s message))) \<and>
   (m_type message = Some ''move_signed'' \<and> m_playerPubkey message \<noteq> Some (myPubkey s) \<and>
    m_transactionData message = Some t \<and> m_boardPoints message = Some b \<and>
    m_dice message = Some d \<and> tx_from e t = Some tx \<and> 2 \<le> length (signatures tx) \<and>
    provider_ready e \<and> tx_serialize e True (with_fee_payer e tx) = Some bytes \<longrightarrow>
      submitted (snd (messageHandler e seen s message)) = [with_fee_payer e tx] \<and>
      submitted (snd (messageHandler e seen' (fst (messageHandler e seen s message)) message))
        = [with_fee_payer e tx])"
proof -
  have free: "submitted (snd (messageHandler e seen' s' message))
        = submitted (snd (messageHandler e seen s message))"
    if "m_type message = Some ''move_signed''" and "myPubkey s' = myPubkey s"
    using that by (rule move_signed_state_free)
  have again: "submitted (snd (messageHandler e seen s message)) = [with_fee_payer e tx] \<and>
      submitted (snd (messageHandler e seen' (fst (messageHandler e seen s message)) message))
        = [with_fee_payer e tx]"
    if ty: "m_type message = Some ''move_signed''"
      and other: "m_playerPubkey message \<noteq> Some (myPubkey s)"
      and rest: "m_transactionData message = Some t" "m_boardPoints message = Some b"
        "m_dice message = Some d" "tx_from e t = Some tx" "2 \<le> length (signatures tx)"
        "provider_ready e" "tx_serialize e True (with_fee_payer e tx) = Some bytes"
  proof -
    have first: "submitted (snd (messageHandler e seen s message)) = [with_fee_payer e tx]"
      using ty other rest by (rule move_signed_submits)
    have key: "myPubkey (fst (messageHandler e seen s message)) = myPubkey s"
      using ty by (rule move_signed_keeps_key)
    have "submitted (snd (messageHandler e seen' (fst (messageHandler e seen s message)) message))
        = submitted (snd (messageHandler e seen s message))"
      using ty key by (rule move_signed_state_free)
    with first show ?thesis by simp
  qed
  from free again show ?thesis by blast
qed

theorem move_signed_replay_submits_witness:
  "m_type signed_move = Some ''move_signed'' \<and>
   m_playerPubkey signed_move \<noteq> Some (myPubkey busy_engine) \<and>
   submitted (snd (messageHandler demo_env None busy_engine signed_move)) = [cosigned_tx] \<and>
   submitted (snd (messageHandler demo_env None after_submission signed_move)) = [cosigned_tx] \<and>
   submitted (snd (messageHandler demo_env None demo_engine signed_move)) = [cosigned_tx]"
proof -
  have m: "m_type signed_move = Some ''move_signed''"
    "m_playerPubkey signed_move \<noteq> Some (myPubkey busy_engine)"
    by (simp_all add: signed_move_def no_fields_def busy_engine_def demo_engine_def)
  have fee: "with_fee_payer demo_env cosigned_tx = cosigned_tx"
    by (simp add: with_fee_payer_def cosigned_tx_def)
  have both: "submitted (snd (messageHandler demo_env None busy_engine signed_move))
        = [cosigned_tx] \<and>
      submitted (snd (messageHandler demo_env None after_submission signed_move))
        = [cosigned_tx]"
    unfolding after_submission_def
    using move_signed_replay_submits
      [where message = signed_move and s = busy_engine and e = demo_env and seen = None
        and seen' = None and t = "[1]" and b = "[- 30, 0, 0, 29]" and d = "[Some 3, Some 5]"
        and tx = cosigned_tx and bytes = "[1, 2]"] fee
    by (simp add: signed_move_def no_fields_def busy_engine_def demo_engine_def demo_env_def
        demo_from_def demo_serialize_def cosigned_tx_def)
  have "submitted (snd (messageHandler demo_env None demo_engine signed_move))
      = submitted (snd (messageHandler demo_env None busy_engine signed_move))"
    using move_signed_replay_submits
      [where message = signed_move and s = busy_engine and s' = demo_engine and e = demo_env
        and seen = None and seen' = None] m(1)
    by (simp add: busy_engine_def demo_engine_def)
  with m both show ?thesis by simp
qed

text \<open>
  Claim C6, as stated, fails in two places. A \<open>move_signed\<close> message without transaction
  data, handled while the handler sees a pending move, takes the fallback path, which
  toggles the turn owner locally, with no submission and no announcement. And on the
  signed path the proposer clears its pending move and its selection as soon as its own
  submission is confirmed, before any \<open>turn_changed\<close> arrives.
\<close>

theorem local_turn_update_counterexample:
  "m_type bare_signed_move = Some ''move_signed'' \<and>
   currentTurn busy_engine = JNum 1 \<and> isMyTurn busy_engine \<and>
   currentTurn (fst (messageHandler demo_env (Some proposal_6) busy_engine bare_signed_move))
     = JNum 2 \<and>
   \<not> isMyTurn (fst (messageHandler demo_env (Some proposal_6) busy_engine bare_signed_move)) \<and>
   m_type signed_move = Some ''move_signed'' \<and>
   pendingMove busy_engine = Some proposal_6 \<and> selectedCell busy_engine = Some 3 \<and>
   pendingMove (fst (messageHandler demo_env None busy_engine signed_move)) = None \<and>
   selectedCell (fst (messageHandler demo_env None busy_engine signed_move)) = None"
proof -
  have b: "m_type bare_signed_move = Some ''move_signed''"
    by (simp add: bare_signed_move_def no_fields_def)
  have m: "m_type signed_move = Some ''move_signed''"
    by (simp add: signed_move_def no_fields_def)
  have "messageHandler demo_env (Some proposal_6) busy_engine bare_signed_move
      = submitMoveToBlockchain busy_engine (pm_boardPoints proposal_6) (pm_dice proposal_6)"
    by (subst mh_move_signed [OF b])
      (simp add: bare_signed_move_def no_fields_def busy_engine_def demo_engine_def)
  then have fallback:
    "currentTurn (fst (messageHandler demo_env (Some proposal_6) busy_engine bare_signed_move))
       = JNum 2 \<and>
     \<not> isMyTurn (fst (messageHandler demo_env (Some proposal_6) busy_engine bare_signed_move))"
    by (simp add: submitMoveToBlockchain_def busy_engine_def demo_engine_def)
  have confirmed:
    "pendingMove (fst (messageHandler demo_env None busy_engine signed_move)) = None \<and>
     selectedCell (fst (messageHandler demo_env None busy_engine signed_move)) = None"
    unfolding mh_move_signed [OF m]
    by (simp add: signed_move_def no_fields_def busy_engine_def demo_engine_def demo_env_def
        demo_from_def cosigned_tx_def submitSignedTransactionToBlockchain_def
        invoke_sendTurnCompleted with_fee_payer_def demo_serialize_def)
  have "currentTurn busy_engine = JNum 1 \<and> isMyTurn busy_engine \<and>
     pendingMove busy_engine = Some proposal_6 \<and> selectedCell busy_engine = Some 3"
    by (simp add: busy_engine_def demo_engine_def)
  with b m fallback confirmed show ?thesis by blast
qed

text \<open>
  Claim C6, amended. Submitting a signed move never changes the proposer's turn owner
  (\<open>currentTurn\<close>, \<open>isMyTurn\<close>). When the submission is confirmed the proposer at once stores
  the confirmed board and dice, clears its pending move and selection and, if its socket is
  open, sends \<open>turn_completed\<close> with the new turn 2 if its current turn is 1 and 1 otherwise;
  the submission sends no other frame, and the new turn differs from the proposer's current
  turn. The relay sends \<open>turn_changed\<close> with the same new turn to exactly the open
  connections subscribed to the session. An engine that receives \<open>turn_changed\<close> with a
  new turn (whatever value it is) sets \<open>currentTurn\<close> to it, clears dice, selection, pending
  move, \<open>isRolling\<close> and \<open>isProcessingMove\<close>, and recomputes \<open>isMyTurn\<close> only if its game
  info is loaded, keeping it otherwise; without a new turn nothing changes. A
  \<open>move_signed\<close> message with another \<open>playerPubkey\<close> that lacks transaction data, board or
  dice, handled while the handler sees a pending move, takes the fallback: the engine stores
  that move's board and dice, toggles \<open>currentTurn\<close> and \<open>isMyTurn\<close> locally and clears
  pending move and selection, with no effect at all.
\<close>

theorem turn_owner_updates:
  "currentTurn (fst (submitSignedTransactionToBlockchain e s tx b d)) = currentTurn s \<and>
   isMyTurn (fst (submitSignedTransactionToBlockchain e s tx b d)) = isMyTurn s \<and>
   (provider_ready e \<and> tx_serialize e True tx = Some bytes \<and> 2 \<le> length (signatures tx) \<and>
    ledger e bytes = Confirmed \<longrightarrow>
      submitSignedTransactionToBlockchain e s tx b d =
        (s \<lparr> boardPoints := b, dice := Some d, pendingMove := None, selectedCell := None \<rparr>,
         SendRawTransaction tx bytes #
         (if ws_open e then
            [WsSend (no_fields \<lparr> m_type := Some ''turn_completed'',
               m_gamePubkey := Some (gamePubkey s), m_playerPubkey := Some (myPubkey s),
               m_newTurn := Some (JNum (if currentTurn s = JNum 1 then 2 else 1)) \<rparr>)]
          else []))) \<and>
   (m \<in> set (sent_frames (snd (submitSignedTransactionToBlockchain e s tx b d))) \<longrightarrow>
      m_type m = Some ''turn_completed'' \<and> m_newTurn m \<noteq> Some (currentTurn s) \<and>
      (m_newTurn m = Some (JNum 1) \<or> m_newTurn m = Some (JNum 2))) \<and>
   (parse data = Some q \<and> m_type q = Some ''turn_completed'' \<and> m_gamePubkey q = Some S \<longrightarrow>
      fst (on_message parse r ws data) = r \<and>
      (\<forall>c f. (c, f) \<in> set (snd (on_message parse r ws data)) \<longleftrightarrow>
         c \<in> set (clients r) \<and> readyState r c \<and>
         (\<exists>u. clientSubscriptions r c = Some u \<and> sub_gamePubkey u = S) \<and>
         f = no_fields \<lparr> m_type := Some ''turn_changed'', m_gamePubkey := Some S,
               m_newTurn := m_newTurn q \<rparr>)) \<and>
   (m_type a = Some ''turn_changed'' \<and> m_newTurn a = Some v \<longrightarrow>
      messageHandler e' seen s' a =
        (s' \<lparr> currentTurn := v,
              isMyTurn := (case gameInfo s' of
                  None \<Rightarrow> isMyTurn s'
                | Some gi \<Rightarrow> (v = JNum 1 \<and> myPubkey s' = player1 gi) \<or>
                             (v = JNum 2 \<and> myPubkey s' \<noteq> player1 gi)),
              dice := None, selectedCell := None, pendingMove := None,
              isRolling := False, isProcessingMove := False \<rparr>, [])) \<and>
   (m_type a = Some ''turn_changed'' \<and> m_newTurn a = None \<longrightarrow>
      messageHandler e' seen s' a = (s', [])) \<and>
   (m_type h = Some ''move_signed'' \<and> m_playerPubkey h \<noteq> Some (myPubkey s') \<and>
    (m_transactionData h = None \<or> m_boardPoints h = None \<or> m_dice h = None) \<longrightarrow>
      messageHandler e' (Some pm) s' h =
        (s' \<lparr> boardPoints := pm_boardPoints pm, dice := Some (pm_dice pm),
              currentTurn := JNum (if currentTurn s' = JNum 1 then 2 else 1),
              isMyTurn := (\<not> isMyTurn s'), pendingMove := None, selectedCell := None \<rparr>,
         []))"
proof -
  have announce: "m_type m = Some ''turn_completed'' \<and> m_newTurn m \<noteq> Some (currentTurn s) \<and>
      (m_newTurn m = Some (JNum 1) \<or> m_newTurn m = Some (JNum 2))"
    if "m \<in> set (sent_frames (snd (submitSignedTransactionToBlockchain e s tx b d)))"
    using frames_submitSigned [OF that] by (auto simp add: no_fields_def)
  have relay: "fst (on_message parse r ws data) = r \<and>
      (\<forall>c f. (c, f) \<in> set (snd (on_message parse r ws data)) \<longleftrightarrow>
         c \<in> set (clients r) \<and> readyState r c \<and>
         (\<exists>u. clientSubscriptions r c = Some u \<and> sub_gamePubkey u = S) \<and>
         f = no_fields \<lparr> m_type := Some ''turn_changed'', m_gamePubkey := Some S,
               m_newTurn := m_newTurn q \<rparr>)"
    if "parse data = Some q" and "m_type q = Some ''turn_completed''"
      and "m_gamePubkey q = Some S"
    using that(3) on_message_turn_completed [of parse data q r ws, OF that(1,2)]
    by (simp add: fan_out_iff subscribed_to_iff turn_changed_of_def)
  have received: "messageHandler e' seen s' a =
        (s' \<lparr> currentTurn := v,
              isMyTurn := (case gameInfo s' of
                  None \<Rightarrow> isMyTurn s'
                | Some gi \<Rightarrow> (v = JNum 1 \<and> myPubkey s' = player1 gi) \<or>
                             (v = JNum 2 \<and> myPubkey s' \<noteq> player1 gi)),
              dice := None, selectedCell := None, pendingMove := None,
              isRolling := False, isProcessingMove := False \<rparr>, [])"
    if "m_type a = Some ''turn_changed''" and "m_newTurn a = Some v"
    using that by (simp add: mh_turn_changed)
  have silent: "messageHandler e' seen s' a = (s', [])"
    if "m_type a = Some ''turn_changed''" and "m_newTurn a = None"
    using that by (simp add: mh_turn_changed)
  show ?thesis
    apply (intro conjI)
    subgoal by (simp add: turn_kept_submitSigned)
    subgoal by (simp add: turn_kept_submitSigned)
    subgoal by (intro impI, elim conjE, rule submitSigned_confirmed; assumption)
    subgoal by (intro impI, rule announce; assumption)
    subgoal by (intro impI, elim conjE, rule relay; assumption)
    subgoal by (intro impI, elim conjE, rule received; assumption)
    subgoal by (intro impI, elim conjE, rule silent; assumption)
    subgoal by (intro impI, elim conjE, rule mh_fallback; assumption)
    done
qed

theorem turn_owner_updates_witness:
  "submitSignedTransactionToBlockchain demo_env busy_engine cosigned_tx
      [- 30, 0, 0, 29] (Some 3, Some 5) =
     (busy_engine \<lparr> boardPoints := [- 30, 0, 0, 29], dice := Some (Some 3, Some 5),
        pendingMove := None, selectedCell := None \<rparr>,
      [SendRawTransaction cosigned_tx [1, 2], WsSend turn_completed_2]) \<and>
   m_newTurn turn_completed_2 \<noteq> Some (currentTurn busy_engine) \<and>
   (1, turn_announcement) \<in> set (snd (on_message Some demo_relay 1 turn_completed_2)) \<and>
   (3, turn_announcement) \<notin> set (snd (on_message Some demo_relay 1 turn_completed_2)) \<and>
   messageHandler demo_env None busy_engine turn_announcement =
     (busy_engine \<lparr> currentTurn := JNum 2, isMyTurn := False, dice := None,
        selectedCell := None, pendingMove := None, isRolling := False,
        isProcessingMove := False \<rparr>, []) \<and>
   messageHandler demo_env None busy_engine silent_turn_changed = (busy_engine, []) \<and>
   messageHandler demo_env (Some proposal_6) busy_engine bare_signed_move =
     (busy_engine \<lparr> boardPoints := [- 29, 0, 0, 30], dice := Some (Some 3, Some 5),
        currentTurn := JNum 2, isMyTurn := False, pendingMove := None,
        selectedCell := None \<rparr>, [])"
proof -
  have c: "provider_ready demo_env" "tx_serialize demo_env True cosigned_tx = Some [1, 2]"
    "2 \<le> length (signatures cosigned_tx)" "ledger demo_env [1, 2] = Confirmed"
    by (simp_all add: demo_env_def demo_serialize_def cosigned_tx_def)
  have "submitSignedTransactionToBlockchain demo_env busy_engine cosigned_tx
      [- 30, 0, 0, 29] (Some 3, Some 5) =
     (busy_engine \<lparr> boardPoints := [- 30, 0, 0, 29], dice := Some (Some 3, Some 5),
        pendingMove := None, selectedCell := None \<rparr>,
      SendRawTransaction cosigned_tx [1, 2] #
      (if ws_open demo_env then
         [WsSend (no_fields \<lparr> m_type := Some ''turn_completed'',
            m_gamePubkey := Some (gamePubkey busy_engine),
            m_playerPubkey := Some (myPubkey busy_engine),
            m_newTurn := Some (JNum (if currentTurn busy_engine = JNum 1 then 2 else 1)) \<rparr>)]
       else []))"
    using turn_owner_updates
      [where e = demo_env and s = busy_engine and tx = cosigned_tx and bytes = "[1, 2]"
        and b = "[- 30, 0, 0, 29]" and d = "(Some 3, Some 5)", THEN conjunct2, THEN conjunct2, THEN conjunct1] c
    by blast
  moreover have "ws_open demo_env" "gamePubkey busy_engine = ''S1''"
    "myPubkey busy_engine = ''P1''" "currentTurn busy_engine = JNum 1"
    by (simp_all add: demo_env_def busy_engine_def demo_engine_def)
  ultimately have sub: "submitSignedTransactionToBlockchain demo_env busy_engine cosigned_tx
      [- 30, 0, 0, 29] (Some 3, Some 5) =
     (busy_engine \<lparr> boardPoints := [- 30, 0, 0, 29], dice := Some (Some 3, Some 5),
        pendingMove := None, selectedCell := None \<rparr>,
      [SendRawTransaction cosigned_tx [1, 2], WsSend turn_completed_2])"
    by (simp add: turn_completed_2_def)
  then have "turn_completed_2 \<in> set (sent_frames (snd
      (submitSignedTransactionToBlockchain demo_env busy_engine cosigned_tx
        [- 30, 0, 0, 29] (Some 3, Some 5))))"
    by simp
  with turn_owner_updates
      [where e = demo_env and s = busy_engine and tx = cosigned_tx
        and b = "[- 30, 0, 0, 29]" and d = "(Some 3, Some 5)" and m = turn_completed_2, THEN conjunct2, THEN conjunct2, THEN conjunct2, THEN conjunct1]
  have differs: "m_newTurn turn_completed_2 \<noteq> Some (currentTurn busy_engine)"
    by blast
  have q: "m_type turn_completed_2 = Some ''turn_completed''"
    "m_gamePubkey turn_completed_2 = Some ''S1''"
    by (simp_all add: turn_completed_2_def no_fields_def)
  have ann: "no_fields \<lparr> m_type := Some ''turn_changed'', m_gamePubkey := Some ''S1'',
        m_newTurn := m_newTurn turn_completed_2 \<rparr> = turn_announcement"
    by (simp add: turn_completed_2_def turn_announcement_def no_fields_def)
  have "\<forall>c f. (c, f) \<in> set (snd (on_message Some demo_relay 1 turn_completed_2)) \<longleftrightarrow>
         c \<in> set (clients demo_relay) \<and> readyState demo_relay c \<and>
         (\<exists>u. clientSubscriptions demo_relay c = Some u \<and> sub_gamePubkey u = ''S1'') \<and>
         f = no_fields \<lparr> m_type := Some ''turn_changed'', m_gamePubkey := Some ''S1'',
               m_newTurn := m_newTurn turn_completed_2 \<rparr>"
    using turn_owner_updates
      [where parse = Some and data = turn_completed_2 and q = turn_completed_2
        and S = "''S1''" and r = demo_relay and ws = 1, THEN conjunct2, THEN conjunct2, THEN conjunct2, THEN conjunct2, THEN conjunct1] q
    by blast
  then have relay: "(1, turn_announcement) \<in> set (snd (on_message Some demo_relay 1 turn_completed_2))
      \<and> (3, turn_announcement) \<notin> set (snd (on_message Some demo_relay 1 turn_completed_2))"
    by (simp add: ann demo_relay_def)
  have a: "m_type turn_announcement = Some ''turn_changed''"
    "m_newTurn turn_announcement = Some (JNum 2)"
    by (simp_all add: turn_announcement_def no_fields_def)
  have "messageHandler demo_env None busy_engine turn_announcement =
        (busy_engine \<lparr> currentTurn := JNum 2,
              isMyTurn := (case gameInfo busy_engine of
                  None \<Rightarrow> isMyTurn busy_engine
                | Some gi \<Rightarrow> (JNum 2 = JNum 1 \<and> myPubkey busy_engine = player1 gi) \<or>
                             (JNum 2 = JNum 2 \<and> myPubkey busy_engine \<noteq> player1 gi)),
              dice := None, selectedCell := None, pendingMove := None,
              isRolling := False, isProcessingMove := False \<rparr>, [])"
    using turn_owner_updates
      [where a = turn_announcement and v = "JNum 2" and e' = demo_env and seen = None
        and s' = busy_engine, THEN conjunct2, THEN conjunct2, THEN conjunct2, THEN conjunct2, THEN conjunct2, THEN conjunct1] a
    by blast
  moreover have "gameInfo busy_engine = Some demo_game" "myPubkey busy_engine = player1 demo_game"
    by (simp_all add: busy_engine_def demo_engine_def demo_game_def)
  ultimately have got: "messageHandler demo_env None busy_engine turn_announcement =
     (busy_engine \<lparr> currentTurn := JNum 2, isMyTurn := False, dice := None,
        selectedCell := None, pendingMove := None, isRolling := False,
        isProcessingMove := False \<rparr>, [])"
    by simp
  have n: "m_type silent_turn_changed = Some ''turn_changed''"
    "m_newTurn silent_turn_changed = None"
    by (simp_all add: silent_turn_changed_def no_fields_def)
  have none: "messageHandler demo_env None busy_engine silent_turn_changed = (busy_engine, [])"
    using turn_owner_updates
      [where a = silent_turn_changed and e' = demo_env and seen = None and s' = busy_engine, THEN conjunct2, THEN conjunct2, THEN conjunct2, THEN conjunct2, THEN conjunct2, THEN conjunct2, THEN conjunct1] n
    by blast
  have h: "m_type bare_signed_move = Some ''move_signed''"
    "m_playerPubkey bare_signed_move \<noteq> Some (myPubkey busy_engine)"
    "m_transactionData bare_signed_move = None"
    by (simp_all add: bare_signed_move_def no_fields_def busy_engine_def demo_engine_def)
  have "messageHandler demo_env (Some proposal_6) busy_engine bare_signed_move =
        (busy_engine \<lparr> boardPoints := pm_boardPoints proposal_6,
              dice := Some (pm_dice proposal_6),
              currentTurn := JNum (if currentTurn busy_engine = JNum 1 then 2 else 1),
              isMyTurn := (\<not> isMyTurn busy_engine), pendingMove := None,
              selectedCell := None \<rparr>, [])"
    using turn_owner_updates
      [where h = bare_signed_move and e' = demo_env and pm = proposal_6 and s' = busy_engine, THEN conjunct2, THEN conjunct2, THEN conjunct2, THEN conjunct2, THEN conjunct2, THEN conjunct2, THEN conjunct2] h
    by blast
  moreover have "pm_boardPoints proposal_6 = [- 29, 0, 0, 30]"
    "pm_dice proposal_6 = (Some 3, Some 5)" "currentTurn busy_engine = JNum 1"
    "isMyTurn busy_engine"
    by (simp_all add: proposal_6_def busy_engine_def demo_engine_def)
  ultimately have fallback:
    "messageHandler demo_env (Some proposal_6) busy_engine bare_signed_move =
     (busy_engine \<lparr> boardPoints := [- 29, 0, 0, 30], dice := Some (Some 3, Some 5),
        currentTurn := JNum 2, isMyTurn := False, pendingMove := None,
        selectedCell := None \<rparr>, [])"
    by simp
  from sub differs relay got none fallback show ?thesis by blast
qed

text \<open>
  Claim C7 says that \<open>sendFinishRequest\<close>, \<open>sendFinishSigned\<close> and \<open>sendGameFinished\<close> are
  defined on \<open>WebSocketClient\<close>. None of the three is a member of the class. So
  \<open>confirmWin\<close> never sends a finish request: its state is unchanged and no frame leaves.
\<close>

theorem finish_methods_missing:
  "''sendFinishRequest'' \<notin> set WebSocketClient_methods \<and>
   ''sendFinishSigned'' \<notin> set WebSocketClient_methods \<and>
   ''sendGameFinished'' \<notin> set WebSocketClient_methods \<and>
   fst (confirmWin e s) = s \<and> sent_frames (snd (confirmWin e s)) = []"
  by (simp add: WebSocketClient_methods_def confirmWin_alerts win_alert_def)

theorem finish_methods_missing_witness:
  "confirmWin demo_env demo_engine = (demo_engine, [win_alert]) \<and>
   sent_frames (snd (confirmWin demo_env demo_engine)) = []"
  using finish_methods_missing [of demo_env demo_engine]
  by (simp add: confirmWin_alerts demo_engine_def)

text \<open>
  Claim C8, as stated, fails on the chat-only relay: an unparseable message gets no reply
  there, the relay sends nothing at all.
\<close>

theorem chat_relay_unparseable_counterexample:
  "chat_on_message (\<lambda>d. None) 0 demo_chat_relay 1 ''{'' = (demo_chat_relay, [])"
  by (simp add: chat_on_message_def)

text \<open>
  Claim C8, amended. An unparseable message changes no state and is forwarded to nobody.
  The co-signing relay answers it with one error frame on the originating connection; the
  chat-only relay only logs it and sends nothing.
\<close>

theorem unparseable_dropped:
  assumes "parse data = None"
  shows "on_message parse r ws data = (r, [(ws, error_reply ''Failed to process message'')]) \<and>
         chat_on_message parse now cr ws data = (cr, [])"
  using assms by (simp add: on_message_def chat_on_message_def)

theorem unparseable_dropped_witness:
  "on_message (\<lambda>d. None) demo_relay 3 ''{'' =
     (demo_relay, [(3, error_reply ''Failed to process message'')]) \<and>
   chat_on_message (\<lambda>d. None) 0 demo_chat_relay 3 ''{'' = (demo_chat_relay, [])"
  using unparseable_dropped [of "\<lambda>d. None" "''{''" demo_relay 3 0 demo_chat_relay]
  by simp

text \<open>
  Claim C9, as stated, fails on both of its routing errors. Connection 3 has never
  subscribed, yet its \<open>move_request\<close> for the registered session is forwarded to both
  subscribers and no error is reported. And a \<open>finish_request\<close> that names a session absent
  from the games table is forwarded to the connection subscribed under that name, again
  with no error.
\<close>

theorem relay_routing_counterexample:
  "clientSubscriptions stranger_relay 3 = None \<and>
   on_message Some stranger_relay 3 demo_move_request =
     (stranger_relay, [(1, demo_move_request), (2, demo_move_request)]) \<and>
   games demo_relay ''S2'' = None \<and>
   on_message Some demo_relay 1 unknown_finish_request =
     (demo_relay, [(3, unknown_finish_request)])"
  by (simp add: stranger_relay_def demo_relay_def demo_move_request_def no_fields_def
      unknown_finish_request_def on_message_def forward_checked_def gameStmt_get_def
      fan_out_def subscribed_to_def)

text \<open>
  Claim C9, amended. A \<open>move_request\<close>, \<open>move_signed\<close> or \<open>finish_signed\<close> message whose
  session is absent from the games table, or that names no session, is answered by the
  error \<open>Game not found\<close> on the sending connection only; nothing is forwarded and the relay
  state is unchanged. The relay never checks that the sender has subscribed: the frames
  that a message makes the relay send to connections other than the sender are the same
  whether or not the sender holds a subscription. A \<open>chat\<close>, \<open>finish_request\<close>,
  \<open>game_finished\<close> or \<open>manual_finished\<close> message is sent unchanged to exactly the open
  connections subscribed to the session it names, whatever the games table holds, and the
  relay state is unchanged.
\<close>

theorem relay_routing_errors:
  "(parse data = Some message \<and>
    (m_type message = Some ''move_request'' \<or> m_type message = Some ''move_signed''
       \<or> m_type message = Some ''finish_signed'') \<and>
    (m_gamePubkey message = None \<or> (m_gamePubkey message = Some S \<and> games r S = None)) \<longrightarrow>
      on_message parse r ws data = (r, [(ws, error_reply ''Game not found'')])) \<and>
   filter (\<lambda>cf. fst cf \<noteq> ws)
     (snd (on_message parse (r \<lparr> clientSubscriptions := (clientSubscriptions r)(ws := None) \<rparr>)
        ws data))
     = filter (\<lambda>cf. fst cf \<noteq> ws) (snd (on_message parse r ws data)) \<and>
   (parse data = Some message \<and>
    (m_type message = Some ''chat'' \<or> m_type message = Some ''finish_request''
       \<or> m_type message = Some ''game_finished'' \<or> m_type message = Some ''manual_finished'') \<and>
    m_gamePubkey message = Some S \<longrightarrow>
      fst (on_message parse (r \<lparr> games := table \<rparr>) ws data) = r \<lparr> games := table \<rparr> \<and>
      (\<forall>c f. (c, f) \<in> set (snd (on_message parse (r \<lparr> games := table \<rparr>) ws data)) \<longleftrightarrow>
         c \<in> set (clients r) \<and> readyState r c \<and>
         (\<exists>u. clientSubscriptions r c = Some u \<and> sub_gamePubkey u = S) \<and> f = message))"
proof -
  have unknown: "on_message parse r ws data = (r, [(ws, error_reply ''Game not found'')])"
    if p: "parse data = Some message"
      and ty: "m_type message = Some ''move_request'' \<or> m_type message = Some ''move_signed''
         \<or> m_type message = Some ''finish_signed''"
      and no: "m_gamePubkey message = None \<or> (m_gamePubkey message = Some S \<and> games r S = None)"
  proof -
    from no have "gameStmt_get r (m_gamePubkey message) = None"
      by (auto simp add: gameStmt_get_def)
    with p ty show ?thesis by (rule on_message_unknown_game)
  qed
  have plain: "fst (on_message parse (r \<lparr> games := table \<rparr>) ws data) = r \<lparr> games := table \<rparr> \<and>
      (\<forall>c f. (c, f) \<in> set (snd (on_message parse (r \<lparr> games := table \<rparr>) ws data)) \<longleftrightarrow>
         c \<in> set (clients r) \<and> readyState r c \<and>
         (\<exists>u. clientSubscriptions r c = Some u \<and> sub_gamePubkey u = S) \<and> f = message)"
    if p: "parse data = Some message"
      and ty: "m_type message = Some ''chat'' \<or> m_type message = Some ''finish_request''
         \<or> m_type message = Some ''game_finished'' \<or> m_type message = Some ''manual_finished''"
      and g: "m_gamePubkey message = Some S"
    using g on_message_plain_fan_out [of parse data message "r \<lparr> games := table \<rparr>" ws, OF p ty]
    by (simp add: fan_out_iff subscribed_to_iff)
  from unknown plain on_message_without_sender [of ws parse r data] show ?thesis
    by blast
qed

theorem relay_routing_errors_witness:
  "on_message Some demo_relay 1 unknown_game_request =
     (demo_relay, [(1, error_reply ''Game not found'')]) \<and>
   on_message Some demo_relay 1 (demo_move_request \<lparr> m_gamePubkey := None \<rparr>) =
     (demo_relay, [(1, error_reply ''Game not found'')]) \<and>
   filter (\<lambda>cf. fst cf \<noteq> 3) (snd (on_message Some stranger_relay 3 demo_move_request))
     = filter (\<lambda>cf. fst cf \<noteq> 3)
         (snd (on_message Some (demo_relay \<lparr> clients := [1, 2, 3, 4, 5] \<rparr>) 3 demo_move_request)) \<and>
   (3, unknown_finish_request) \<in> set (snd (on_message Some demo_relay 1 unknown_finish_request)) \<and>
   (1, unknown_finish_request) \<notin> set (snd (on_message Some demo_relay 1 unknown_finish_request))"
proof -
  have k: "m_type unknown_game_request = Some ''move_request''"
    "m_gamePubkey unknown_game_request = Some ''S2''"
    "m_type (demo_move_request \<lparr> m_gamePubkey := None \<rparr>) = Some ''move_request''"
    "games demo_relay ''S2'' = None"
    by (simp_all add: unknown_game_request_def demo_move_request_def no_fields_def
        demo_relay_def)
  have named: "on_message Some demo_relay 1 unknown_game_request =
     (demo_relay, [(1, error_reply ''Game not found'')])"
    using relay_routing_errors
      [where parse = Some and data = unknown_game_request and message = unknown_game_request
        and S = "''S2''" and r = demo_relay and ws = 1] k
    by simp
  have unnamed: "on_message Some demo_relay 1 (demo_move_request \<lparr> m_gamePubkey := None \<rparr>) =
     (demo_relay, [(1, error_reply ''Game not found'')])"
    using relay_routing_errors
      [where parse = Some and data = "demo_move_request \<lparr> m_gamePubkey := None \<rparr>"
        and message = "demo_move_request \<lparr> m_gamePubkey := None \<rparr>"
        and r = demo_relay and ws = 1] k
    by simp
  have same: "filter (\<lambda>cf. fst cf \<noteq> 3) (snd (on_message Some stranger_relay 3 demo_move_request))
     = filter (\<lambda>cf. fst cf \<noteq> 3)
         (snd (on_message Some (demo_relay \<lparr> clients := [1, 2, 3, 4, 5] \<rparr>) 3 demo_move_request))"
    using relay_routing_errors
      [where parse = Some and data = demo_move_request
        and r = "demo_relay \<lparr> clients := [1, 2, 3, 4, 5] \<rparr>" and ws = 3]
    by (simp add: stranger_relay_def)
  have f: "m_type unknown_finish_request = Some ''finish_request''"
    "m_gamePubkey unknown_finish_request = Some ''S2''"
    by (simp_all add: unknown_finish_request_def no_fields_def)
  have same_table: "demo_relay \<lparr> games := games demo_relay \<rparr> = demo_relay"
    by simp
  have "\<forall>c f. (c, f) \<in> set (snd (on_message Some
            (demo_relay \<lparr> games := games demo_relay \<rparr>) 1 unknown_finish_request)) \<longleftrightarrow>
         c \<in> set (clients demo_relay) \<and> readyState demo_relay c \<and>
         (\<exists>u. clientSubscriptions demo_relay c = Some u \<and> sub_gamePubkey u = ''S2'') \<and>
         f = unknown_finish_request"
    using relay_routing_errors
      [where parse = Some and data = unknown_finish_request and message = unknown_finish_request
        and S = "''S2''" and r = demo_relay and ws = 1 and table = "games demo_relay"] f
    by blast
  then have fin: "(3, unknown_finish_request) \<in> set (snd (on_message Some demo_relay 1 unknown_finish_request))
      \<and> (1, unknown_finish_request) \<notin> set (snd (on_message Some demo_relay 1 unknown_finish_request))"
    unfolding same_table by (simp add: demo_relay_def)
  from named unnamed same fin show ?thesis by blast
qed

text \<open>
  Claim C10 says that an engine holding a finish request while it is not its turn signs it
  and returns it in a \<open>finish_signed\<close> message without a click. The effect does start the
  signing without a click, but the last step calls \<open>wsClient.sendFinishSigned\<close>, which
  does not exist: no frame is ever sent, the pending finish stays, and the user sees the
  alert of the \<open>catch\<close> block.
\<close>

theorem auto_sign_sends_nothing:
  "fst (autoSignPendingFinish e s) = s \<and>
   sent_frames (snd (autoSignPendingFinish e s)) = [] \<and>
   (\<not> isMyTurn s \<and> pendingFinish s \<noteq> None \<longrightarrow>
      snd (autoSignPendingFinish e s) = [sign_finish_alert])"
  by (simp add: autoSignPendingFinish_def handlePendingFinishSignature_alerts
      sign_finish_alert_def)

theorem auto_sign_sends_nothing_witness:
  "\<not> isMyTurn waiting_engine \<and> pendingFinish waiting_engine \<noteq> None \<and>
   autoSignPendingFinish counterpart_env waiting_engine = (waiting_engine, [sign_finish_alert])"
proof -
  have w: "\<not> isMyTurn waiting_engine \<and> pendingFinish waiting_engine \<noteq> None"
    by (simp add: waiting_engine_def demo_engine_def)
  with auto_sign_sends_nothing [of counterpart_env waiting_engine] show ?thesis
    by (metis prod.collapse)
qed

end
